theory Spec2Isabelle
  imports Complex_Main
begin

section \<open>Numbers\<close>

text \<open>
  The simulator computes with numpy double-precision numbers. The embedding takes
  the finite ones as exact reals: overflow, underflow and signed zeros are left out,
  and so is rounding, except in the section on double precision, which rounds the
  numpy reductions where that decides a property. What is kept throughout is the part
  of IEEE arithmetic that decides control flow and results in this program: a
  division by zero and the square root of a negative number do not raise in numpy,
  they give an infinity or a NaN, which then propagates. A scalar or a vector entry
  has type \<open>npfloat\<close>.
\<close>

datatype npfloat = Finite real | PosInf | NegInf | NaN

definition signed_inf :: "bool \<Rightarrow> npfloat" where
  "signed_inf positive = (if positive then PosInf else NegInf)"

fun nf_neg :: "npfloat \<Rightarrow> npfloat" where
  "nf_neg (Finite a) = Finite (- a)"
| "nf_neg PosInf = NegInf"
| "nf_neg NegInf = PosInf"
| "nf_neg NaN = NaN"

fun nf_add :: "npfloat \<Rightarrow> npfloat \<Rightarrow> npfloat" where
  "nf_add (Finite a) (Finite b) = Finite (a + b)"
| "nf_add NaN y = NaN"
| "nf_add x NaN = NaN"
| "nf_add PosInf NegInf = NaN"
| "nf_add NegInf PosInf = NaN"
| "nf_add PosInf y = PosInf"
| "nf_add x PosInf = PosInf"
| "nf_add NegInf y = NegInf"
| "nf_add x NegInf = NegInf"

fun nf_mul :: "npfloat \<Rightarrow> npfloat \<Rightarrow> npfloat" where
  "nf_mul (Finite a) (Finite b) = Finite (a * b)"
| "nf_mul NaN y = NaN"
| "nf_mul x NaN = NaN"
| "nf_mul PosInf (Finite b) = (if b = 0 then NaN else signed_inf (0 < b))"
| "nf_mul NegInf (Finite b) = (if b = 0 then NaN else signed_inf (b < 0))"
| "nf_mul (Finite a) PosInf = (if a = 0 then NaN else signed_inf (0 < a))"
| "nf_mul (Finite a) NegInf = (if a = 0 then NaN else signed_inf (a < 0))"
| "nf_mul PosInf PosInf = PosInf"
| "nf_mul PosInf NegInf = NegInf"
| "nf_mul NegInf PosInf = NegInf"
| "nf_mul NegInf NegInf = PosInf"

text \<open>
  Division of finite numbers by zero: \<open>0 / 0\<close> is NaN, and a non-zero numerator gives
  the infinity of its sign (the zero taken as positive).
\<close>

fun nf_div :: "npfloat \<Rightarrow> npfloat \<Rightarrow> npfloat" where
  "nf_div (Finite a) (Finite b) =
     (if b \<noteq> 0 then Finite (a / b) else if a = 0 then NaN else signed_inf (0 < a))"
| "nf_div NaN y = NaN"
| "nf_div x NaN = NaN"
| "nf_div (Finite a) PosInf = Finite 0"
| "nf_div (Finite a) NegInf = Finite 0"
| "nf_div PosInf (Finite b) = signed_inf (0 \<le> b)"
| "nf_div NegInf (Finite b) = signed_inf (b < 0)"
| "nf_div PosInf y = NaN"
| "nf_div NegInf y = NaN"

text \<open>
  The operators \<open>+\<close>, \<open>-\<close>, \<open>*\<close> and \<open>/\<close> on \<open>npfloat\<close> are these functions, so
  that the formulas below read as in the source.
\<close>

instantiation npfloat :: "{plus, minus, times, inverse}"
begin

definition plus_npfloat :: "npfloat \<Rightarrow> npfloat \<Rightarrow> npfloat" where
  "plus_npfloat = nf_add"

definition minus_npfloat :: "npfloat \<Rightarrow> npfloat \<Rightarrow> npfloat" where
  "minus_npfloat x y = nf_add x (nf_neg y)"

definition times_npfloat :: "npfloat \<Rightarrow> npfloat \<Rightarrow> npfloat" where
  "times_npfloat = nf_mul"

definition divide_npfloat :: "npfloat \<Rightarrow> npfloat \<Rightarrow> npfloat" where
  "divide_npfloat = nf_div"

definition inverse_npfloat :: "npfloat \<Rightarrow> npfloat" where
  "inverse_npfloat x = nf_div (Finite 1) x"

instance ..

end

text \<open>\<open>np.exp\<close> and \<open>np.sqrt\<close> on one number.\<close>

fun np_exp :: "npfloat \<Rightarrow> npfloat" where
  "np_exp (Finite a) = Finite (exp a)"
| "np_exp PosInf = PosInf"
| "np_exp NegInf = Finite 0"
| "np_exp NaN = NaN"

fun np_sqrt :: "npfloat \<Rightarrow> npfloat" where
  "np_sqrt (Finite a) = (if a < 0 then NaN else Finite (sqrt a))"
| "np_sqrt PosInf = PosInf"
| "np_sqrt NegInf = NaN"
| "np_sqrt NaN = NaN"

text \<open>
  \<open>np.clip(x, lo, hi)\<close> is \<open>minimum(maximum(x, lo), hi)\<close>; a NaN stays a NaN.
\<close>

fun np_clip :: "npfloat \<Rightarrow> real \<Rightarrow> real \<Rightarrow> npfloat" where
  "np_clip (Finite a) lo hi = Finite (min (max a lo) hi)"
| "np_clip PosInf lo hi = Finite hi"
| "np_clip NegInf lo hi = Finite (min lo hi)"
| "np_clip NaN lo hi = NaN"

text \<open>\<open>np.maximum\<close> of two numbers: a NaN operand gives NaN.\<close>

fun np_maximum :: "npfloat \<Rightarrow> npfloat \<Rightarrow> npfloat" where
  "np_maximum (Finite a) (Finite b) = Finite (max a b)"
| "np_maximum NaN y = NaN"
| "np_maximum x NaN = NaN"
| "np_maximum PosInf y = PosInf"
| "np_maximum x PosInf = PosInf"
| "np_maximum NegInf y = y"
| "np_maximum x NegInf = x"

text \<open>\<open>np.minimum\<close> of two numbers: a NaN operand gives NaN.\<close>

fun np_minimum :: "npfloat \<Rightarrow> npfloat \<Rightarrow> npfloat" where
  "np_minimum (Finite a) (Finite b) = Finite (min a b)"
| "np_minimum NaN y = NaN"
| "np_minimum x NaN = NaN"
| "np_minimum NegInf y = NegInf"
| "np_minimum x NegInf = NegInf"
| "np_minimum PosInf y = y"
| "np_minimum x PosInf = x"

text \<open>
  Comparisons of numpy scalars, \<open>x <= y\<close> and \<open>x < y\<close>: a comparison with a NaN is
  false.
\<close>

fun nf_le :: "npfloat \<Rightarrow> npfloat \<Rightarrow> bool" where
  "nf_le (Finite a) (Finite b) = (a \<le> b)"
| "nf_le NaN y = False"
| "nf_le x NaN = False"
| "nf_le NegInf y = True"
| "nf_le x PosInf = True"
| "nf_le PosInf y = False"
| "nf_le x NegInf = False"

fun nf_less :: "npfloat \<Rightarrow> npfloat \<Rightarrow> bool" where
  "nf_less (Finite a) (Finite b) = (a < b)"
| "nf_less NaN y = False"
| "nf_less x NaN = False"
| "nf_less NegInf NegInf = False"
| "nf_less NegInf y = True"
| "nf_less PosInf y = False"
| "nf_less x PosInf = True"
| "nf_less x NegInf = False"

text \<open>
  A vector all of whose entries are finite, as a list of reals; \<open>None\<close> when an
  entry is an infinity or a NaN.
\<close>

fun finite_vec :: "npfloat list \<Rightarrow> real list option" where
  "finite_vec [] = Some []"
| "finite_vec (Finite a # xs) = map_option ((#) a) (finite_vec xs)"
| "finite_vec (x # xs) = None"

section \<open>Errors\<close>

text \<open>
  Every exception the modelled code can raise is a Python \<open>ValueError\<close> (or, for the
  empty vector under some numpy versions, an \<open>IndexError\<close>); the constructors tell
  the raising places apart:
  \<^item> \<open>NegativeDimensions\<close>: \<open>np.random.standard_normal\<close> called with a negative size;
  \<^item> \<open>UnknownStrategy s\<close>: \<open>raise ValueError(f"Unknown strategy: {strategy}")\<close> in
    \<open>calculate_pnl\<close>;
  \<^item> \<open>EmptyVector\<close>: a numpy reduction with no identity (\<open>np.min\<close>, and the
    percentile before it) applied to an empty vector;
  \<^item> \<open>NonFiniteRange\<close>: \<open>np.histogram\<close> on a vector whose minimum or maximum is not
    finite.
\<close>

datatype py_error = NegativeDimensions | UnknownStrategy string | EmptyVector | NonFiniteRange

section \<open>The simulator\<close>

text \<open>
  \<open>CommoditySimulator.__init__\<close> stores the commodity code and reads the current price
  and the volatility from the data loader once; the methods below read only these
  three attributes.
\<close>

record simulator =
  commodity :: string
  current_price :: real
  volatility :: real

subsection \<open>Price generation\<close>

text \<open>
  \<open>np.random.standard_normal(n)\<close> reads the process-wide generator. Here the generator
  is an argument: \<open>rng i\<close> is the \<open>i\<close>-th number it will hand out. A negative size
  raises.
\<close>

definition standard_normal :: "(nat \<Rightarrow> real) \<Rightarrow> int \<Rightarrow> py_error + real list" where
  "standard_normal rng n =
     (if n < 0 then Inl NegativeDimensions else Inr (map rng [0..<nat n]))"

definition simulate_prices ::
  "simulator \<Rightarrow> real \<Rightarrow> int \<Rightarrow> int \<Rightarrow> (nat \<Rightarrow> real) \<Rightarrow> py_error + npfloat list" where
  "simulate_prices self spot_price time_horizon n_simulations rng =
     (let dt = real_of_int time_horizon / 12;
          drift = 0.02
      in case standard_normal rng n_simulations of
           Inl e \<Rightarrow> Inl e
         | Inr z \<Rightarrow>
             Inr (map (\<lambda>z_i. Finite spot_price * np_exp (
                    Finite ((drift - 0.5 * (volatility self)\<^sup>2) * dt) +
                    Finite (volatility self) * np_sqrt (Finite dt) * Finite z_i)) z))"

subsection \<open>Profit and loss of a strategy\<close>

definition calculate_pnl ::
  "real \<Rightarrow> real \<Rightarrow> real \<Rightarrow> npfloat list \<Rightarrow> string \<Rightarrow> py_error + npfloat list" where
  "calculate_pnl volume spot_price futures_price final_prices strategy =
     (let unhedged_revenue = map (\<lambda>p. Finite volume * p) final_prices in
      if strategy = ''no_hedge'' then Inr unhedged_revenue
      else if strategy = ''full_hedge'' then
        (let hedged_revenue = volume * futures_price
         in Inr (map (\<lambda>p. Finite hedged_revenue) final_prices))
      else if strategy = ''partial_hedge'' then
        (let hedge_ratio = 0.5;
             hedged_volume = volume * hedge_ratio;
             unhedged_volume = volume * (1 - hedge_ratio);
             hedged_revenue = hedged_volume * futures_price;
             unhedged_revenue = map (\<lambda>p. Finite unhedged_volume * p) final_prices
         in Inr (map (\<lambda>u. Finite hedged_revenue + u) unhedged_revenue))
      else if strategy = ''dynamic_hedge'' then
        (let hedge_ratios = map (\<lambda>p. np_clip
               (Finite 0.5 + Finite 0.5 * (Finite futures_price - p) / Finite futures_price)
               0 1) final_prices;
             hedged_revenue = map (\<lambda>r. Finite volume * r * Finite futures_price) hedge_ratios;
             unhedged_revenue =
               map2 (\<lambda>r p. Finite volume * (Finite 1 - r) * p) hedge_ratios final_prices
         in Inr (map2 (+) hedged_revenue unhedged_revenue))
      else Inl (UnknownStrategy strategy))"

subsection \<open>numpy reductions\<close>

text \<open>
  The functions of this subsection are numpy's, not the repository's; they are
  written from numpy's documented behaviour. A vector can hold NaN or an infinity, and
  no reduction raises on that: \<open>np.sum\<close>, \<open>np.mean\<close> and \<open>np.std\<close> compute with the
  arithmetic above, \<open>np.min\<close> and \<open>np.max\<close> give NaN as soon as an entry is NaN,
  \<open>np.sort\<close> puts the NaN entries last, and \<open>np.percentile\<close> and \<open>np.median\<close> give NaN
  when an entry is NaN. The mean of the empty vector is \<open>0 / 0\<close>, a NaN. \<open>nf_min\<close>,
  \<open>nf_max\<close>, \<open>nf_percentile\<close> and \<open>nf_median\<close> are used on non-empty vectors only:
  numpy raises on the empty one, and every caller below tests for it first.
\<close>

definition nf_sum :: "npfloat list \<Rightarrow> npfloat" where
  "nf_sum a = foldl (+) (Finite 0) a"

definition nf_mean :: "npfloat list \<Rightarrow> npfloat" where
  "nf_mean a = nf_sum a / Finite (real (length a))"

text \<open>
  Population standard deviation, \<open>sqrt(mean(abs(a - a.mean())**2))\<close>; numpy squares a
  real deviation by multiplying it with itself.
\<close>

definition nf_std :: "npfloat list \<Rightarrow> npfloat" where
  "nf_std a = (let m = nf_mean a in np_sqrt (nf_mean (map (\<lambda>x. (x - m) * (x - m)) a)))"

fun nf_min :: "npfloat list \<Rightarrow> npfloat" where
  "nf_min (x # xs) = foldl np_minimum x xs"

fun nf_max :: "npfloat list \<Rightarrow> npfloat" where
  "nf_max (x # xs) = foldl np_maximum x xs"

text \<open>\<open>np.sort\<close>: increasing order, the NaN entries at the end.\<close>

fun sorts_before :: "npfloat \<Rightarrow> npfloat \<Rightarrow> bool" where
  "sorts_before x NaN = True"
| "sorts_before NaN y = False"
| "sorts_before x y = nf_le x y"

fun nf_insort :: "npfloat \<Rightarrow> npfloat list \<Rightarrow> npfloat list" where
  "nf_insort x [] = [x]"
| "nf_insort x (y # ys) = (if sorts_before x y then x # y # ys else y # nf_insort x ys)"

definition nf_sort :: "npfloat list \<Rightarrow> npfloat list" where
  "nf_sort a = foldr nf_insort a []"

text \<open>
  \<open>np.percentile(a, q)\<close> with the default method \<open>linear\<close>: the sorted vector is read
  at the virtual index \<open>(n - 1) * q / 100\<close>, interpolating linearly between the two
  neighbouring entries. numpy interpolates from the left entry when the weight is
  below one half and from the right entry otherwise.
\<close>

definition nf_lerp :: "npfloat \<Rightarrow> npfloat \<Rightarrow> real \<Rightarrow> npfloat" where
  "nf_lerp a b t =
     (if t \<ge> 0.5 then b - (b - a) * Finite (1 - t) else a + (b - a) * Finite t)"

definition nf_percentile :: "npfloat list \<Rightarrow> real \<Rightarrow> npfloat" where
  "nf_percentile a q =
     (if NaN \<in> set a then NaN
      else
       (let arr = nf_sort a;
            n = length arr;
            virtual_index = real (n - 1) * (q / 100);
            previous_index = nat \<lfloor>virtual_index\<rfloor>;
            next_index = min (previous_index + 1) (n - 1);
            gamma = virtual_index - real previous_index
        in nf_lerp (arr ! previous_index) (arr ! next_index) gamma))"

text \<open>
  \<open>np.median\<close>: the middle entry of the sorted vector, or the mean of the two
  middle entries when the length is even.
\<close>

definition nf_median :: "npfloat list \<Rightarrow> npfloat" where
  "nf_median a =
     (if NaN \<in> set a then NaN
      else
       (let arr = nf_sort a;
            n = length arr;
            h = n div 2
        in if odd n then arr ! h else nf_mean [arr ! (h - 1), arr ! h]))"

text \<open>\<open>np.maximum.accumulate\<close>: the running maximum.\<close>

fun accumulate_from :: "npfloat \<Rightarrow> npfloat list \<Rightarrow> npfloat list" where
  "accumulate_from m [] = []"
| "accumulate_from m (x # xs) = np_maximum m x # accumulate_from (np_maximum m x) xs"

fun maximum_accumulate :: "npfloat list \<Rightarrow> npfloat list" where
  "maximum_accumulate [] = []"
| "maximum_accumulate (x # xs) = x # accumulate_from x xs"

subsection \<open>The reductions on vectors of finite numbers\<close>

text \<open>
  On a vector all of whose entries are finite the reductions above give finite
  numbers. These are the functions below, over the reals; the lemmas of the section
  on basic facts say so for each of them.
\<close>

definition np_mean :: "real list \<Rightarrow> real" where
  "np_mean a = sum_list a / real (length a)"

definition np_std :: "real list \<Rightarrow> real" where
  "np_std a = sqrt (np_mean (map (\<lambda>x. \<bar>x - np_mean a\<bar>\<^sup>2) a))"

definition np_min :: "real list \<Rightarrow> real" where
  "np_min a = Min (set a)"

definition np_max :: "real list \<Rightarrow> real" where
  "np_max a = Max (set a)"

definition lerp :: "real \<Rightarrow> real \<Rightarrow> real \<Rightarrow> real" where
  "lerp a b t = a + (b - a) * t"

definition np_percentile :: "real list \<Rightarrow> real \<Rightarrow> real" where
  "np_percentile a q =
     (let arr = sort a;
          n = length arr;
          virtual_index = real (n - 1) * (q / 100);
          previous_index = nat \<lfloor>virtual_index\<rfloor>;
          next_index = min (previous_index + 1) (n - 1);
          gamma = virtual_index - real previous_index
      in lerp (arr ! previous_index) (arr ! next_index) gamma)"

subsection \<open>Risk metrics\<close>

record risk_metrics =
  m_mean :: npfloat
  m_std :: npfloat
  m_min :: npfloat
  m_max :: npfloat
  m_var_95 :: npfloat
  m_es_95 :: npfloat
  m_sharpe_ratio :: npfloat
  m_max_drawdown :: npfloat
  m_percentile_5 :: npfloat
  m_percentile_25 :: npfloat
  m_percentile_50 :: npfloat
  m_percentile_75 :: npfloat
  m_percentile_95 :: npfloat

text \<open>
  \<open>calculate_risk_metrics\<close>. On the empty vector the numpy reductions raise, so no
  dictionary is returned. On any other vector a dictionary is returned, also when the
  vector holds NaN: the selection \<open>pnl[pnl <= var_95]\<close> is then empty, since every
  comparison with NaN is false, and its mean is NaN. The Sharpe ratio and the
  drawdowns divide numpy scalars, where a zero divisor gives NaN or an infinity
  instead of raising.
\<close>

definition calculate_risk_metrics :: "npfloat list \<Rightarrow> py_error + risk_metrics" where
  "calculate_risk_metrics pnl =
     (if pnl = [] then Inl EmptyVector
      else
       (let mean_pnl = nf_mean pnl;
            std_pnl = nf_std pnl;
            var_95 = nf_percentile pnl 5;
            es_95 = nf_mean (filter (\<lambda>x. nf_le x var_95) pnl);
            risk_free_rate = 0.03;
            sharpe_ratio =
              (if nf_less (Finite 0) std_pnl
               then (mean_pnl / mean_pnl - Finite risk_free_rate) / (std_pnl / mean_pnl)
               else Finite 0);
            cummax = maximum_accumulate (rev (nf_sort pnl));
            drawdown = map2 (\<lambda>c s. (c - s) / c) cummax (rev (nf_sort pnl));
            max_drawdown =
              (case drawdown of [] \<Rightarrow> Finite 0 | d # ds \<Rightarrow> foldl np_maximum d ds)
        in Inr \<lparr> m_mean = mean_pnl,
                 m_std = std_pnl,
                 m_min = nf_min pnl,
                 m_max = nf_max pnl,
                 m_var_95 = var_95,
                 m_es_95 = es_95,
                 m_sharpe_ratio = sharpe_ratio,
                 m_max_drawdown = max_drawdown * Finite 100,
                 m_percentile_5 = nf_percentile pnl 5,
                 m_percentile_25 = nf_percentile pnl 25,
                 m_percentile_50 = nf_percentile pnl 50,
                 m_percentile_75 = nf_percentile pnl 75,
                 m_percentile_95 = nf_percentile pnl 95 \<rparr>))"

subsection \<open>Histogram\<close>

text \<open>
  \<open>np.histogram(a, bins)\<close> with an integer number of bins and no range, as numpy
  documents it. The outer edges are the minimum and the maximum of the data
  (\<open>0\<close> and \<open>1\<close> for no data); when the two coincide numpy widens the range by
  \<open>0.5\<close> on each side. The edges are \<open>np.linspace(first, last, bins + 1)\<close>. Every bin
  is half-open, \<open>[e\<^sub>i, e\<^sub>i\<^sub>+\<^sub>1)\<close>, but the last, which is closed. A range that is not
  finite raises.
\<close>

definition np_linspace :: "real \<Rightarrow> real \<Rightarrow> nat \<Rightarrow> real list" where
  "np_linspace start stop num =
     map (\<lambda>k. start + real k * ((stop - start) / real (num - 1))) [0..<num]"

definition outer_edges :: "real list \<Rightarrow> real \<times> real" where
  "outer_edges a =
     (let (first_edge, last_edge) = (if a = [] then (0, 1) else (np_min a, np_max a))
      in if first_edge = last_edge then (first_edge - 0.5, last_edge + 0.5)
         else (first_edge, last_edge))"

definition in_bin :: "real list \<Rightarrow> nat \<Rightarrow> real \<Rightarrow> bool" where
  "in_bin bin_edges i x =
     (bin_edges ! i \<le> x \<and>
      (if i + 2 = length bin_edges then x \<le> bin_edges ! (i + 1) else x < bin_edges ! (i + 1)))"

definition histogram_finite :: "real list \<Rightarrow> nat \<Rightarrow> nat list \<times> real list" where
  "histogram_finite a bins =
     (let (first_edge, last_edge) = outer_edges a;
          bin_edges = np_linspace first_edge last_edge (bins + 1);
          hist = map (\<lambda>i. length (filter (in_bin bin_edges i) a)) [0..<bins]
      in (hist, bin_edges))"

definition np_histogram :: "npfloat list \<Rightarrow> nat \<Rightarrow> py_error + nat list \<times> real list" where
  "np_histogram a bins =
     (case finite_vec a of
        None \<Rightarrow> Inl NonFiniteRange
      | Some xs \<Rightarrow> Inr (histogram_finite xs bins))"

subsection \<open>A complete run\<close>

record histogram_data =
  h_counts :: "nat list"
  h_bins :: "real list"

record scenarios =
  sc_best_case :: npfloat
  sc_worst_case :: npfloat
  sc_median :: npfloat

record simulation_result =
  res_strategy :: string
  res_commodity :: string
  res_spot_price :: real
  res_volume :: real
  res_time_horizon :: int
  res_n_simulations :: int
  res_metrics :: risk_metrics
  res_histogram :: histogram_data
  res_price_distribution :: histogram_data
  res_sample_scenarios :: scenarios

text \<open>
  \<open>run_simulation\<close>. The P&L vector can hold NaN (a negative horizon makes
  \<open>np.sqrt(dt)\<close> NaN, and \<open>dynamic_hedge\<close> divides by the futures price). On such a
  vector \<open>calculate_risk_metrics\<close> returns its dictionary and nothing is raised before
  \<open>np.histogram(pnl, bins=50)\<close>, which raises.
\<close>

definition run_simulation ::
  "simulator \<Rightarrow> real \<Rightarrow> real \<Rightarrow> int \<Rightarrow> string \<Rightarrow> int \<Rightarrow> (nat \<Rightarrow> real) \<Rightarrow>
     py_error + simulation_result" where
  "run_simulation self volume spot_price0 time_horizon strategy n_simulations rng =
     (let spot_price = (if spot_price0 = 0 then current_price self else spot_price0)
      in case simulate_prices self spot_price time_horizon n_simulations rng of
           Inl e \<Rightarrow> Inl e
         | Inr final_prices \<Rightarrow>
      (let futures_price = spot_price
       in case calculate_pnl volume spot_price futures_price final_prices strategy of
            Inl e \<Rightarrow> Inl e
          | Inr pnl \<Rightarrow>
      (case calculate_risk_metrics pnl of
         Inl e \<Rightarrow> Inl e
       | Inr metrics \<Rightarrow>
      (case np_histogram pnl 50 of
         Inl e \<Rightarrow> Inl e
       | Inr (hist, bin_edges) \<Rightarrow>
      (case np_histogram final_prices 50 of
         Inl e \<Rightarrow> Inl e
       | Inr (price_hist, price_bins) \<Rightarrow>
           Inr \<lparr> res_strategy = strategy,
                 res_commodity = commodity self,
                 res_spot_price = spot_price,
                 res_volume = volume,
                 res_time_horizon = time_horizon,
                 res_n_simulations = n_simulations,
                 res_metrics = metrics,
                 res_histogram = \<lparr> h_counts = hist, h_bins = bin_edges \<rparr>,
                 res_price_distribution = \<lparr> h_counts = price_hist, h_bins = price_bins \<rparr>,
                 res_sample_scenarios =
                   \<lparr> sc_best_case = nf_max pnl,
                     sc_worst_case = nf_min pnl,
                     sc_median = nf_median pnl \<rparr> \<rparr>)))))"

section \<open>Double precision\<close>

text \<open>
  The definitions above compute over the reals. numpy computes with doubles: the
  result of every arithmetic operation is rounded to the nearest double, a tie going
  to the even significand. Two computations that agree over the reals can then differ
  in the last bit, and the mean of equal numbers need not be that number. The
  functions of this section are \<open>np.sum\<close>, \<open>np.mean\<close>, \<open>np.std\<close>, \<open>np.median\<close> and
  \<open>np.percentile\<close> on vectors of doubles with this rounding; they are used where the
  rounding decides a property. \<open>fl x\<close> is the double nearest to \<open>x\<close>: 53 significant
  bits, the exponent range taken as unbounded (no overflow and no underflow).
\<close>

definition round_even :: "real \<Rightarrow> int" where
  "round_even q =
     (let n = \<lfloor>q\<rfloor>; r = q - of_int n
      in if r < 1 / 2 then n else if 1 / 2 < r then n + 1 else if even n then n else n + 1)"

definition fl :: "real \<Rightarrow> real" where
  "fl x =
     (if x = 0 then 0
      else (let e = \<lfloor>log 2 \<bar>x\<bar>\<rfloor> - 52
            in of_int (round_even (x / 2 powr of_int e)) * 2 powr of_int e))"

text \<open>
  \<open>np.sum\<close> adds pairwise. Fewer than eight numbers are added from left to right. Up
  to 128 numbers are added as eight interleaved running sums, which are then added in
  pairs, and the numbers left over past a multiple of eight are added last. A longer
  vector is split in two near the middle, at a multiple of eight, and the sums of the
  two parts are added.
\<close>

fun sum_loop_fl :: "real \<Rightarrow> real list \<Rightarrow> real" where
  "sum_loop_fl res [] = res"
| "sum_loop_fl res (x # xs) = sum_loop_fl (fl (res + x)) xs"

function add_blocks_fl :: "real list \<Rightarrow> real list \<Rightarrow> real list" where
  "add_blocks_fl r a =
     (if length a < 8 then r
      else add_blocks_fl (map2 (\<lambda>s x. fl (s + x)) r (take 8 a)) (drop 8 a))"
  by pat_completeness auto
termination
  by (relation "measure (\<lambda>(r, a). length a)") auto

function pairwise_sum_fl :: "real list \<Rightarrow> real" where
  "pairwise_sum_fl a =
     (if length a < 8 then sum_loop_fl 0 a
      else if length a \<le> 128 then
        (let m = length a - length a mod 8;
             r = add_blocks_fl (take 8 a) (take (m - 8) (drop 8 a));
             res = fl (fl (fl (r ! 0 + r ! 1) + fl (r ! 2 + r ! 3)) +
                       fl (fl (r ! 4 + r ! 5) + fl (r ! 6 + r ! 7)))
         in sum_loop_fl res (drop m a))
      else
        (let n2 = length a div 2 - (length a div 2) mod 8
         in fl (pairwise_sum_fl (take n2 a) + pairwise_sum_fl (drop n2 a))))"
  by pat_completeness auto
termination
  by (relation "measure length") auto

declare add_blocks_fl.simps [simp del]

declare pairwise_sum_fl.simps [simp del]

definition np_mean_fl :: "real list \<Rightarrow> real" where
  "np_mean_fl a = fl (pairwise_sum_fl a / real (length a))"

text \<open>
  \<open>np.std\<close>: the mean, the deviations from it, their squares, the mean of the squares
  and its square root, each step rounded.
\<close>

definition np_std_fl :: "real list \<Rightarrow> real" where
  "np_std_fl a =
     (let arrmean = np_mean_fl a;
          x = map (\<lambda>v. fl (v - arrmean)) a;
          x2 = map (\<lambda>d. fl (d * d)) x
      in fl (sqrt (fl (pairwise_sum_fl x2 / real (length a)))))"

text \<open>
  \<open>np.percentile\<close> interpolates between the neighbouring entries \<open>a\<close> and \<open>b\<close> with weight
  \<open>t\<close> as \<open>a + (b - a) * t\<close> when \<open>t < 0.5\<close> and as \<open>b - (b - a) * (1 - t)\<close> otherwise;
  \<open>np.median\<close> takes the mean of the middle entry or of the two middle entries.
\<close>

definition lerp_fl :: "real \<Rightarrow> real \<Rightarrow> real \<Rightarrow> real" where
  "lerp_fl a b t =
     (if t \<ge> 0.5 then fl (b - fl (fl (b - a) * fl (1 - t)))
      else fl (a + fl (fl (b - a) * t)))"

definition np_percentile_fl :: "real list \<Rightarrow> real \<Rightarrow> real" where
  "np_percentile_fl a q =
     (let arr = sort a;
          n = length arr;
          virtual_index = fl (real (n - 1) * fl (q / 100));
          previous_index = nat \<lfloor>virtual_index\<rfloor>;
          next_index = min (previous_index + 1) (n - 1);
          gamma = fl (virtual_index - real previous_index)
      in lerp_fl (arr ! previous_index) (arr ! next_index) gamma)"

definition np_median_fl :: "real list \<Rightarrow> real" where
  "np_median_fl a =
     (let arr = sort a;
          n = length arr;
          h = n div 2
      in np_mean_fl (if odd n then [arr ! h] else [arr ! (h - 1), arr ! h]))"

section \<open>Basic facts\<close>

subsection \<open>Arithmetic on finite numbers\<close>

lemma Finite_plus [simp]: "Finite a + Finite b = Finite (a + b)"
  by (simp add: plus_npfloat_def)

lemma Finite_minus [simp]: "Finite a - Finite b = Finite (a - b)"
  by (simp add: minus_npfloat_def)

lemma Finite_times [simp]: "Finite a * Finite b = Finite (a * b)"
  by (simp add: times_npfloat_def)

lemma Finite_divide [simp]: "b \<noteq> 0 \<Longrightarrow> Finite a / Finite b = Finite (a / b)"
  by (simp add: divide_npfloat_def)

lemma Finite_divide_zero [simp]:
  "Finite a / Finite 0 = (if a = 0 then NaN else signed_inf (0 < a))"
  by (simp add: divide_npfloat_def)

lemma NaN_plus [simp]: "NaN + x = NaN" "x + NaN = NaN"
  by (cases x; simp add: plus_npfloat_def)+

lemma NaN_minus [simp]: "NaN - x = NaN" "x - NaN = NaN"
  by (cases x; simp add: minus_npfloat_def)+

lemma NaN_times [simp]: "NaN * x = NaN" "x * NaN = NaN"
  by (cases x; simp add: times_npfloat_def)+

lemma NaN_divide [simp]: "NaN / x = NaN" "x / NaN = NaN"
  by (cases x; simp add: divide_npfloat_def)+

lemma finite_vec_map_Finite [simp]: "finite_vec (map Finite xs) = Some xs"
  by (induction xs) simp_all

lemma finite_vec_Some_iff: "finite_vec v = Some xs \<longleftrightarrow> v = map Finite xs"
proof (induction v arbitrary: xs)
  case Nil
  then show ?case by auto
next
  case (Cons x v)
  then show ?case by (cases x) auto
qed

lemma map_Finite_eq_iff [simp]: "map Finite xs = map Finite ys \<longleftrightarrow> xs = ys"
  by (simp add: inj_map_eq_map inj_on_def)

subsection \<open>Linear interpolation in a sorted vector\<close>

lemma lerp_lower: "a \<le> b \<Longrightarrow> 0 \<le> t \<Longrightarrow> a \<le> lerp a b t"
  by (simp add: lerp_def)

lemma lerp_upper:
  assumes "a \<le> b" "t \<le> 1"
  shows "lerp a b t \<le> b"
proof -
  have "(b - a) * t \<le> (b - a) * 1"
    using assms by (intro mult_left_mono) simp_all
  then show ?thesis by (simp add: lerp_def)
qed

lemma lerp_mono:
  assumes "a \<le> b" "t \<le> u"
  shows "lerp a b t \<le> lerp a b u"
proof -
  have "(b - a) * t \<le> (b - a) * u"
    using assms by (intro mult_left_mono) simp_all
  then show ?thesis by (simp add: lerp_def)
qed

lemma virtual_index_facts:
  fixes n :: nat and t :: real
  assumes "0 \<le> t" "t \<le> real (n - 1)"
  shows "nat \<lfloor>t\<rfloor> \<le> n - 1"
    and "real (nat \<lfloor>t\<rfloor>) \<le> t"
    and "t - real (nat \<lfloor>t\<rfloor>) < 1"
proof -
  have f: "real (nat \<lfloor>t\<rfloor>) = of_int \<lfloor>t\<rfloor>"
    using assms(1) by simp
  show "real (nat \<lfloor>t\<rfloor>) \<le> t" "t - real (nat \<lfloor>t\<rfloor>) < 1"
    unfolding f by linarith+
  have "\<lfloor>t\<rfloor> \<le> int (n - 1)"
    using assms(2) by (simp add: floor_le_iff)
  then show "nat \<lfloor>t\<rfloor> \<le> n - 1" by linarith
qed

text \<open>
  The interpolated reading of a sorted vector does not decrease when the virtual index
  grows: within one segment the slope is not negative, and across segments the
  entries in between are in order.
\<close>

lemma interpolate_sorted_mono:
  fixes s :: "real list"
  assumes srt: "sorted s" and ne: "s \<noteq> []"
    and t0: "0 \<le> t" and tu: "t \<le> u" and un: "u \<le> real (length s - 1)"
  shows "lerp (s ! nat \<lfloor>t\<rfloor>) (s ! min (nat \<lfloor>t\<rfloor> + 1) (length s - 1)) (t - real (nat \<lfloor>t\<rfloor>))
       \<le> lerp (s ! nat \<lfloor>u\<rfloor>) (s ! min (nat \<lfloor>u\<rfloor> + 1) (length s - 1)) (u - real (nat \<lfloor>u\<rfloor>))"
proof -
  define n where "n = length s"
  define i where "i = nat \<lfloor>t\<rfloor>"
  define j where "j = nat \<lfloor>u\<rfloor>"
  have npos: "0 < n" using ne by (simp add: n_def)
  have u0: "0 \<le> u" and tn: "t \<le> real (n - 1)"
    using t0 tu un by (simp_all add: n_def)
  have i_le: "i \<le> n - 1" and i_t: "real i \<le> t" and gi: "t - real i < 1"
    using virtual_index_facts[OF t0 tn] by (simp_all add: i_def)
  have j_le: "j \<le> n - 1" and j_u: "real j \<le> u" and gj: "u - real j < 1"
    using virtual_index_facts[OF u0 un[folded n_def]] by (simp_all add: j_def)
  have ij: "i \<le> j"
    unfolding i_def j_def using tu by (intro nat_mono floor_mono)
  have nth_le: "s ! a \<le> s ! b" if "a \<le> b" "b \<le> n - 1" for a b
  proof -
    have "b < length s" using that(2) npos unfolding n_def by linarith
    then show ?thesis using that(1) by (intro sorted_nth_mono[OF srt])
  qed
  have step_i: "s ! i \<le> s ! min (i + 1) (n - 1)"
    using i_le by (intro nth_le) simp_all
  have step_j: "s ! j \<le> s ! min (j + 1) (n - 1)"
    using j_le by (intro nth_le) simp_all
  show ?thesis
  proof (cases "i = j")
    case True
    have "lerp (s ! i) (s ! min (i + 1) (n - 1)) (t - real i)
        \<le> lerp (s ! i) (s ! min (i + 1) (n - 1)) (u - real i)"
      using step_i tu by (intro lerp_mono) simp_all
    then show ?thesis using True by (simp add: i_def j_def n_def)
  next
    case False
    then have lt: "i + 1 \<le> j" using ij by simp
    have "lerp (s ! i) (s ! min (i + 1) (n - 1)) (t - real i) \<le> s ! min (i + 1) (n - 1)"
      using step_i gi by (intro lerp_upper) simp_all
    also have "\<dots> \<le> s ! j"
      using lt j_le by (intro nth_le) simp_all
    also have "\<dots> \<le> lerp (s ! j) (s ! min (j + 1) (n - 1)) (u - real j)"
      using step_j j_u by (intro lerp_lower) simp_all
    finally show ?thesis by (simp add: i_def j_def n_def)
  qed
qed

lemma sort_nonempty: "a \<noteq> [] \<Longrightarrow> sort a \<noteq> []"
  by (metis length_0_conv length_sort)

lemma np_percentile_mono:
  assumes "a \<noteq> []" "0 \<le> q" "q \<le> q'" "q' \<le> 100"
  shows "np_percentile a q \<le> np_percentile a q'"
proof -
  have ne: "sort a \<noteq> []" using assms(1) by (rule sort_nonempty)
  have t0: "0 \<le> real (length (sort a) - 1) * (q / 100)"
    using assms(2) by simp
  have tu: "real (length (sort a) - 1) * (q / 100) \<le> real (length (sort a) - 1) * (q' / 100)"
    using assms(3) by (intro mult_left_mono) simp_all
  have "real (length (sort a) - 1) * (q' / 100) \<le> real (length (sort a) - 1) * 1"
    using assms(4) by (intro mult_left_mono) simp_all
  then have un: "real (length (sort a) - 1) * (q' / 100) \<le> real (length (sort a) - 1)"
    by simp
  show ?thesis
    unfolding np_percentile_def Let_def
    by (rule interpolate_sorted_mono[OF sorted_sort ne t0 tu un])
qed

lemma sorted_first_is_Min:
  fixes s :: "real list"
  assumes "sorted s" "s \<noteq> []"
  shows "s ! 0 = Min (set s)"
proof (cases s)
  case Nil
  then show ?thesis using assms(2) by simp
next
  case (Cons x xs)
  have low: "x \<le> y" if "y \<in> set xs" for y
    using assms(1) that unfolding Cons by simp
  have "Min (set (x # xs)) = x"
  proof (rule Min_eqI)
    show "finite (set (x # xs))" by simp
    show "x \<le> y" if "y \<in> set (x # xs)" for y
      using that low by auto
    show "x \<in> set (x # xs)" by simp
  qed
  then show ?thesis unfolding Cons by simp
qed

lemma np_percentile_0:
  assumes "a \<noteq> []"
  shows "np_percentile a 0 = np_min a"
proof -
  have "sort a ! 0 = Min (set (sort a))"
    by (rule sorted_first_is_Min[OF sorted_sort sort_nonempty[OF assms]])
  then show ?thesis by (simp add: np_percentile_def lerp_def np_min_def)
qed

lemma np_min_le_percentile:
  assumes "a \<noteq> []" "0 \<le> q" "q \<le> 100"
  shows "np_min a \<le> np_percentile a q"
proof -
  have "np_percentile a 0 \<le> np_percentile a q"
    by (rule np_percentile_mono[OF assms(1) order_refl assms(2,3)])
  then show ?thesis by (simp only: np_percentile_0[OF assms(1)])
qed

lemma np_min_in_set: "a \<noteq> [] \<Longrightarrow> np_min a \<in> set a"
  unfolding np_min_def by (rule Min_in) simp_all

subsection \<open>The reductions on finite vectors\<close>

lemma NaN_not_Finite [simp]: "NaN \<notin> Finite ` A"
  by auto

lemma foldl_plus_Finite: "foldl (+) (Finite c) (map Finite xs) = Finite (c + sum_list xs)"
  by (induction xs arbitrary: c) (simp_all add: add.assoc)

lemma nf_sum_Finite: "nf_sum (map Finite xs) = Finite (sum_list xs)"
  by (simp add: nf_sum_def foldl_plus_Finite)

lemma nf_mean_Nil: "nf_mean [] = NaN"
  by (simp add: nf_mean_def nf_sum_def)

lemma nf_mean_Finite: "xs \<noteq> [] \<Longrightarrow> nf_mean (map Finite xs) = Finite (np_mean xs)"
  by (simp add: nf_mean_def np_mean_def nf_sum_Finite)

lemma np_mean_nonneg:
  assumes "\<forall>x\<in>set xs. 0 \<le> x"
  shows "0 \<le> np_mean xs"
proof -
  have "0 \<le> sum_list xs" using assms by (intro sum_list_nonneg) simp
  then show ?thesis unfolding np_mean_def by (rule divide_nonneg_nonneg) simp
qed

lemma nf_std_Finite:
  assumes "xs \<noteq> []"
  shows "nf_std (map Finite xs) = Finite (np_std xs)"
proof -
  define m where "m = np_mean xs"
  define sq where "sq = map (\<lambda>x. \<bar>x - m\<bar>\<^sup>2) xs"
  have sq_ne: "sq \<noteq> []" using assms by (simp add: sq_def)
  have "map (\<lambda>x. (x - Finite m) * (x - Finite m)) (map Finite xs) = map Finite sq"
    by (simp add: sq_def power2_eq_square)
  then have "nf_std (map Finite xs) = np_sqrt (nf_mean (map Finite sq))"
    by (simp add: nf_std_def Let_def nf_mean_Finite[OF assms] m_def)
  also have "\<dots> = np_sqrt (Finite (np_mean sq))"
    by (simp only: nf_mean_Finite[OF sq_ne])
  also have "\<dots> = Finite (sqrt (np_mean sq))"
  proof -
    have "0 \<le> np_mean sq" by (rule np_mean_nonneg) (simp add: sq_def)
    then show ?thesis by simp
  qed
  finally show ?thesis by (simp add: np_std_def sq_def m_def)
qed

lemma foldl_np_minimum_Finite:
  "foldl np_minimum (Finite x) (map Finite xs) = Finite (fold min xs x)"
  by (induction xs arbitrary: x) (simp_all add: min.commute)

lemma foldl_np_maximum_Finite:
  "foldl np_maximum (Finite x) (map Finite xs) = Finite (fold max xs x)"
  by (induction xs arbitrary: x) (simp_all add: max.commute)

lemma nf_min_Finite:
  assumes "xs \<noteq> []"
  shows "nf_min (map Finite xs) = Finite (np_min xs)"
proof (cases xs)
  case Nil
  then show ?thesis using assms by simp
next
  case (Cons a list)
  show ?thesis
    unfolding Cons np_min_def Min.set_eq_fold by (simp add: foldl_np_minimum_Finite)
qed

lemma nf_max_Finite:
  assumes "xs \<noteq> []"
  shows "nf_max (map Finite xs) = Finite (np_max xs)"
proof (cases xs)
  case Nil
  then show ?thesis using assms by simp
next
  case (Cons a list)
  show ?thesis
    unfolding Cons np_max_def Max.set_eq_fold by (simp add: foldl_np_maximum_Finite)
qed

lemma nf_insort_Finite: "nf_insort (Finite x) (map Finite ys) = map Finite (insort x ys)"
  by (induction ys) simp_all

lemma nf_sort_Finite: "nf_sort (map Finite xs) = map Finite (sort xs)"
  by (induction xs) (simp_all add: nf_sort_def nf_insort_Finite)

lemma nf_lerp_Finite: "nf_lerp (Finite a) (Finite b) t = Finite (lerp a b t)"
  by (simp add: nf_lerp_def lerp_def algebra_simps)

lemma nf_percentile_Finite:
  assumes ne: "xs \<noteq> []" and q: "0 \<le> q" "q \<le> 100"
  shows "nf_percentile (map Finite xs) q = Finite (np_percentile xs q)"
proof -
  define n where "n = length xs"
  define t where "t = real (n - 1) * (q / 100)"
  have npos: "0 < n" using ne by (simp add: n_def)
  have t0: "0 \<le> t" using q(1) by (simp add: t_def)
  have "real (n - 1) * (q / 100) \<le> real (n - 1) * 1"
    using q(2) by (intro mult_left_mono) simp_all
  then have tn: "t \<le> real (n - 1)" by (simp add: t_def)
  have "nat \<lfloor>t\<rfloor> < n"
    using virtual_index_facts(1)[OF t0 tn] npos by linarith
  then have i: "nat \<lfloor>t\<rfloor> < length (sort xs)"
    by (simp add: n_def)
  have "min (nat \<lfloor>t\<rfloor> + 1) (n - 1) < n"
    using npos by linarith
  then have j: "min (nat \<lfloor>t\<rfloor> + 1) (n - 1) < length (sort xs)"
    by (simp add: n_def)
  have len: "length (sort xs) = n" by (simp add: n_def)
  have a: "map Finite (sort xs) ! nat \<lfloor>t\<rfloor> = Finite (sort xs ! nat \<lfloor>t\<rfloor>)"
    using i by (rule nth_map)
  have b: "map Finite (sort xs) ! min (nat \<lfloor>t\<rfloor> + 1) (n - 1)
             = Finite (sort xs ! min (nat \<lfloor>t\<rfloor> + 1) (n - 1))"
    using j by (rule nth_map)
  show ?thesis
    unfolding nf_percentile_def np_percentile_def Let_def nf_sort_Finite length_map len
      t_def[symmetric] a b nf_lerp_Finite
    by simp
qed

lemma sort_middle_index:
  fixes xs :: "real list"
  assumes "odd (length xs)"
  shows "length xs div 2 < length (sort xs)"
  using assms by (cases xs) simp_all

lemma nf_median_odd:
  assumes "odd (length xs)"
  shows "nf_median (map Finite xs) = Finite (sort xs ! (length xs div 2))"
  using assms sort_middle_index[OF assms]
  by (simp add: nf_median_def Let_def nf_sort_Finite)

lemma np_percentile_50_odd:
  assumes "odd (length xs)"
  shows "np_percentile xs 50 = sort xs ! (length xs div 2)"
proof -
  obtain k where k: "length xs = 2 * k + 1" using assms by (auto elim: oddE)
  have vi: "real (length (sort xs) - 1) * (50 / 100) = real k" by (simp add: k)
  have h: "length xs div 2 = k" by (simp add: k)
  show ?thesis
    unfolding np_percentile_def Let_def vi h by (simp add: lerp_def)
qed

lemma calculate_risk_metrics_finite:
  assumes ne: "pnl \<noteq> []"
  shows "\<exists>m. calculate_risk_metrics (map Finite pnl) = Inr m \<and>
           m_mean m = Finite (np_mean pnl) \<and> m_std m = Finite (np_std pnl) \<and>
           m_min m = Finite (np_min pnl) \<and> m_max m = Finite (np_max pnl) \<and>
           m_var_95 m = Finite (np_percentile pnl 5) \<and>
           m_es_95 m = nf_mean (map Finite (filter (\<lambda>x. x \<le> np_percentile pnl 5) pnl)) \<and>
           m_sharpe_ratio m =
             (if np_std pnl > 0
              then (Finite (np_mean pnl) / Finite (np_mean pnl) - Finite 0.03) /
                   (Finite (np_std pnl) / Finite (np_mean pnl))
              else Finite 0) \<and>
           m_percentile_5 m = Finite (np_percentile pnl 5) \<and>
           m_percentile_25 m = Finite (np_percentile pnl 25) \<and>
           m_percentile_50 m = Finite (np_percentile pnl 50) \<and>
           m_percentile_75 m = Finite (np_percentile pnl 75) \<and>
           m_percentile_95 m = Finite (np_percentile pnl 95)"
proof -
  have p: "nf_percentile (map Finite pnl) q = Finite (np_percentile pnl q)"
    if "0 \<le> q" "q \<le> 100" for q
    by (rule nf_percentile_Finite[OF ne that])
  have sel: "filter (\<lambda>x. nf_le x (Finite v)) (map Finite pnl)
               = map Finite (filter (\<lambda>x. x \<le> v) pnl)" for v
    by (induction pnl) simp_all
  show ?thesis
    using ne
    by (simp add: calculate_risk_metrics_def Let_def nf_mean_Finite nf_std_Finite
        nf_min_Finite nf_max_Finite p sel)
qed
section \<open>Unknown strategies\<close>

text \<open>
  C4. A strategy identifier outside \<open>no_hedge\<close>, \<open>full_hedge\<close>, \<open>partial_hedge\<close> and
  \<open>dynamic_hedge\<close> makes the P&L computation raise the unknown-strategy error: no
  vector is returned, so nothing is computed as for \<open>no_hedge\<close> or any other
  default. A complete run with a simulation count that the generator accepts ends in
  the same error.
\<close>

theorem unknown_strategy_fails:
  assumes "strategy \<notin> {''no_hedge'', ''full_hedge'', ''partial_hedge'', ''dynamic_hedge''}"
  shows "calculate_pnl volume spot_price futures_price final_prices strategy
           = Inl (UnknownStrategy strategy) \<and>
         (0 \<le> n_simulations \<longrightarrow>
            run_simulation self volume spot_price time_horizon strategy n_simulations rng
              = Inl (UnknownStrategy strategy))"
  using assms
  by (simp add: calculate_pnl_def run_simulation_def simulate_prices_def
      standard_normal_def Let_def)

theorem unknown_strategy_fails_witness:
  "''foo_hedge'' \<notin> {''no_hedge'', ''full_hedge'', ''partial_hedge'', ''dynamic_hedge''} \<and>
   calculate_pnl 10000 4.5 4.5 [Finite 4, Finite 5] ''foo_hedge''
     = Inl (UnknownStrategy ''foo_hedge'') \<and>
   run_simulation \<lparr> commodity = ''CORN'', current_price = 4.5, volatility = 0.25 \<rparr>
     10000 4.5 6 ''foo_hedge'' 2 (\<lambda>i. 0) = Inl (UnknownStrategy ''foo_hedge'')"
  using unknown_strategy_fails [of "''foo_hedge''" 10000 "4.5" "4.5" "[Finite 4, Finite 5]" 2
      "\<lparr> commodity = ''CORN'', current_price = 4.5, volatility = 0.25 \<rparr>" 6 "\<lambda>i. 0"]
  by simp

section \<open>Percentiles and the expected-shortfall tail\<close>

text \<open>
  C5. For a non-empty P&L vector the metrics are returned, the five percentiles are in
  non-decreasing order, and \<open>var_95\<close> is the 5th percentile of the vector.
\<close>

theorem percentiles_ordered:
  assumes "pnl \<noteq> []"
  shows "\<exists>m. calculate_risk_metrics (map Finite pnl) = Inr m \<and>
           nf_le (m_percentile_5 m) (m_percentile_25 m) \<and>
           nf_le (m_percentile_25 m) (m_percentile_50 m) \<and>
           nf_le (m_percentile_50 m) (m_percentile_75 m) \<and>
           nf_le (m_percentile_75 m) (m_percentile_95 m) \<and>
           m_var_95 m = m_percentile_5 m \<and>
           m_var_95 m = nf_percentile (map Finite pnl) 5 \<and>
           m_percentile_5 m = Finite (np_percentile pnl 5) \<and>
           m_percentile_25 m = Finite (np_percentile pnl 25) \<and>
           m_percentile_50 m = Finite (np_percentile pnl 50) \<and>
           m_percentile_75 m = Finite (np_percentile pnl 75) \<and>
           m_percentile_95 m = Finite (np_percentile pnl 95) \<and>
           np_percentile pnl 5 \<le> np_percentile pnl 25 \<and>
           np_percentile pnl 25 \<le> np_percentile pnl 50 \<and>
           np_percentile pnl 50 \<le> np_percentile pnl 75 \<and>
           np_percentile pnl 75 \<le> np_percentile pnl 95"
proof -
  obtain m where m: "calculate_risk_metrics (map Finite pnl) = Inr m"
    and v: "m_var_95 m = Finite (np_percentile pnl 5)"
    and p: "m_percentile_5 m = Finite (np_percentile pnl 5)"
      "m_percentile_25 m = Finite (np_percentile pnl 25)"
      "m_percentile_50 m = Finite (np_percentile pnl 50)"
      "m_percentile_75 m = Finite (np_percentile pnl 75)"
      "m_percentile_95 m = Finite (np_percentile pnl 95)"
    using calculate_risk_metrics_finite[OF assms] by blast
  have o: "np_percentile pnl 5 \<le> np_percentile pnl 25"
      "np_percentile pnl 25 \<le> np_percentile pnl 50"
      "np_percentile pnl 50 \<le> np_percentile pnl 75"
      "np_percentile pnl 75 \<le> np_percentile pnl 95"
    using assms by (intro np_percentile_mono; simp)+
  have n: "nf_percentile (map Finite pnl) 5 = Finite (np_percentile pnl 5)"
    using assms by (intro nf_percentile_Finite) simp_all
  show ?thesis
    using m v p o n by (intro exI[of _ m]) simp
qed

theorem percentiles_ordered_witness:
  "[3, 1, 2 :: real] \<noteq> [] \<and>
   (\<exists>m. calculate_risk_metrics [Finite 3, Finite 1, Finite 2] = Inr m \<and>
      nf_le (m_percentile_5 m) (m_percentile_25 m) \<and>
      nf_le (m_percentile_25 m) (m_percentile_50 m) \<and>
      nf_le (m_percentile_50 m) (m_percentile_75 m) \<and>
      nf_le (m_percentile_75 m) (m_percentile_95 m) \<and>
      m_var_95 m = m_percentile_5 m \<and>
      m_var_95 m = nf_percentile [Finite 3, Finite 1, Finite 2] 5 \<and>
      m_percentile_50 m = Finite (np_percentile [3, 1, 2] 50))"
  using percentiles_ordered [of "[3, 1, 2]"] by auto

lemma nf_le_NaN [simp]: "nf_le x NaN = False"
  by (cases x) simp_all

lemma select_finite:
  "filter (\<lambda>x. nf_le x (Finite v)) (map Finite pnl) = map Finite (filter (\<lambda>x. x \<le> v) pnl)"
  by (induction pnl) simp_all

lemma calculate_risk_metrics_NaN:
  assumes "NaN \<in> set pnl"
  shows "\<exists>m. calculate_risk_metrics pnl = Inr m \<and> m_var_95 m = NaN \<and>
           filter (\<lambda>x. nf_le x (m_var_95 m)) pnl = [] \<and> m_es_95 m = NaN"
proof -
  have ne: "pnl \<noteq> []" using assms by auto
  have v: "nf_percentile pnl 5 = NaN" using assms by (simp add: nf_percentile_def)
  show ?thesis
    using ne by (simp add: calculate_risk_metrics_def Let_def v nf_mean_Nil)
qed

text \<open>
  C9, as the code has it. For a non-empty P&L vector of finite numbers the minimum is
  at most the 5th percentile, so the selection \<open>pnl[pnl <= var_95]\<close> holds the minimum
  and is not empty: \<open>es_95\<close> is the mean of a non-empty selection. For a vector that
  holds a NaN the metrics are returned as well, but \<open>var_95\<close> is NaN, the selection is
  empty and \<open>es_95\<close> is the NaN that the mean of an empty selection gives.
\<close>

theorem es_tail_nonempty:
  "(pnl \<noteq> [] \<longrightarrow>
      np_min pnl \<le> np_percentile pnl 5 \<and>
      filter (\<lambda>x. x \<le> np_percentile pnl 5) pnl \<noteq> [] \<and>
      (\<exists>m. calculate_risk_metrics (map Finite pnl) = Inr m \<and>
         m_var_95 m = Finite (np_percentile pnl 5) \<and>
         filter (\<lambda>x. nf_le x (m_var_95 m)) (map Finite pnl) \<noteq> [] \<and>
         m_es_95 m = nf_mean (filter (\<lambda>x. nf_le x (m_var_95 m)) (map Finite pnl)) \<and>
         m_es_95 m = Finite (np_mean (filter (\<lambda>x. x \<le> np_percentile pnl 5) pnl)))) \<and>
   (NaN \<in> set v \<longrightarrow>
      (\<exists>m. calculate_risk_metrics v = Inr m \<and> m_var_95 m = NaN \<and>
         filter (\<lambda>x. nf_le x (m_var_95 m)) v = [] \<and> m_es_95 m = NaN))"
proof (intro conjI impI)
  assume ne: "pnl \<noteq> []"
  show le: "np_min pnl \<le> np_percentile pnl 5"
    using ne by (intro np_min_le_percentile) simp_all
  have "np_min pnl \<in> set (filter (\<lambda>x. x \<le> np_percentile pnl 5) pnl)"
    using le np_min_in_set[OF ne] by simp
  then show sel: "filter (\<lambda>x. x \<le> np_percentile pnl 5) pnl \<noteq> []"
    by (metis empty_iff empty_set)
  obtain m where m: "calculate_risk_metrics (map Finite pnl) = Inr m"
    and v: "m_var_95 m = Finite (np_percentile pnl 5)"
    and e: "m_es_95 m = nf_mean (map Finite (filter (\<lambda>x. x \<le> np_percentile pnl 5) pnl))"
    using calculate_risk_metrics_finite[OF ne] by blast
  have e': "m_es_95 m = Finite (np_mean (filter (\<lambda>x. x \<le> np_percentile pnl 5) pnl))"
    unfolding e by (rule nf_mean_Finite[OF sel])
  show "\<exists>m. calculate_risk_metrics (map Finite pnl) = Inr m \<and>
         m_var_95 m = Finite (np_percentile pnl 5) \<and>
         filter (\<lambda>x. nf_le x (m_var_95 m)) (map Finite pnl) \<noteq> [] \<and>
         m_es_95 m = nf_mean (filter (\<lambda>x. nf_le x (m_var_95 m)) (map Finite pnl)) \<and>
         m_es_95 m = Finite (np_mean (filter (\<lambda>x. x \<le> np_percentile pnl 5) pnl))"
    using m v e e' sel by (intro exI[of _ m]) (simp add: select_finite)
next
  assume "NaN \<in> set v"
  then show "\<exists>m. calculate_risk_metrics v = Inr m \<and> m_var_95 m = NaN \<and>
         filter (\<lambda>x. nf_le x (m_var_95 m)) v = [] \<and> m_es_95 m = NaN"
    by (rule calculate_risk_metrics_NaN)
qed

theorem es_tail_nonempty_witness:
  "[3, 1, 2 :: real] \<noteq> [] \<and> NaN \<in> set [Finite 1, NaN] \<and>
   np_min [3, 1, 2] \<le> np_percentile [3, 1, 2] 5 \<and>
   filter (\<lambda>x. x \<le> np_percentile [3, 1, 2] 5) [3, 1, 2] \<noteq> [] \<and>
   (\<exists>m. calculate_risk_metrics [Finite 3, Finite 1, Finite 2] = Inr m \<and>
      m_es_95 m = Finite (np_mean (filter (\<lambda>x. x \<le> np_percentile [3, 1, 2] 5) [3, 1, 2]))) \<and>
   (\<exists>m. calculate_risk_metrics [Finite 1, NaN] = Inr m \<and> m_es_95 m = NaN)"
  using es_tail_nonempty [of "[3, 1, 2]" "[Finite 1, NaN]"] by auto

text \<open>
  C9 as stated, for every non-empty P&L vector, fails on the vector of a run with a
  negative horizon: every price and every P&L value is NaN, \<open>calculate_risk_metrics\<close>
  is called on that vector and returns, \<open>var_95\<close> is NaN, no entry is selected and
  \<open>es_95\<close> is the mean of an empty selection.
\<close>

theorem es_tail_empty_on_NaN_vector:
  "simulate_prices \<lparr> commodity = ''CORN'', current_price = 4.5, volatility = 0.25 \<rparr>
     4.5 (- 6) 3 real = Inr [NaN, NaN, NaN] \<and>
   calculate_pnl 10000 4.5 4.5 [NaN, NaN, NaN] ''no_hedge'' = Inr [NaN, NaN, NaN] \<and>
   [NaN, NaN, NaN] \<noteq> [] \<and>
   \<not> isl (calculate_risk_metrics [NaN, NaN, NaN]) \<and>
   m_var_95 (projr (calculate_risk_metrics [NaN, NaN, NaN])) = NaN \<and>
   filter (\<lambda>x. nf_le x (m_var_95 (projr (calculate_risk_metrics [NaN, NaN, NaN]))))
     [NaN, NaN, NaN] = [] \<and>
   m_es_95 (projr (calculate_risk_metrics [NaN, NaN, NaN])) = nf_mean [] \<and>
   m_es_95 (projr (calculate_risk_metrics [NaN, NaN, NaN])) = NaN"
proof -
  have sp: "simulate_prices \<lparr> commodity = ''CORN'', current_price = 4.5, volatility = 0.25 \<rparr>
     4.5 (- 6) 3 real = Inr [NaN, NaN, NaN]"
    by (simp add: simulate_prices_def standard_normal_def Let_def numeral_3_eq_3)
  have pn: "calculate_pnl 10000 4.5 4.5 [NaN, NaN, NaN] ''no_hedge'' = Inr [NaN, NaN, NaN]"
    by (simp add: calculate_pnl_def)
  have v: "nf_percentile [NaN, NaN, NaN] 5 = NaN"
    by (simp add: nf_percentile_def)
  have rm: "\<not> isl (calculate_risk_metrics [NaN, NaN, NaN]) \<and>
   m_var_95 (projr (calculate_risk_metrics [NaN, NaN, NaN])) = NaN \<and>
   filter (\<lambda>x. nf_le x (m_var_95 (projr (calculate_risk_metrics [NaN, NaN, NaN]))))
     [NaN, NaN, NaN] = [] \<and>
   m_es_95 (projr (calculate_risk_metrics [NaN, NaN, NaN])) = nf_mean [] \<and>
   m_es_95 (projr (calculate_risk_metrics [NaN, NaN, NaN])) = NaN"
    by (simp add: calculate_risk_metrics_def Let_def v nf_mean_Nil)
  show ?thesis by (intro conjI sp pn rm[THEN conjunct1] rm[THEN conjunct2]) simp
qed

section \<open>Strategy payoffs\<close>

lemma map2_map_map: "map2 f (map g xs) (map h xs) = map (\<lambda>x. f (g x) (h x)) xs"
  by (induction xs) simp_all

lemma calculate_pnl_no_hedge:
  "calculate_pnl v s F (map Finite ps) ''no_hedge'' = Inr (map Finite (map (\<lambda>p. v * p) ps))"
  by (simp add: calculate_pnl_def)

lemma calculate_pnl_full_hedge:
  "calculate_pnl v s F (map Finite ps) ''full_hedge'' = Inr (map Finite (map (\<lambda>p. v * F) ps))"
  by (simp add: calculate_pnl_def)

lemma calculate_pnl_partial_hedge:
  "calculate_pnl v s F (map Finite ps) ''partial_hedge''
     = Inr (map Finite (map (\<lambda>p. v * 0.5 * F + v * (1 - 0.5) * p) ps))"
  by (simp add: calculate_pnl_def Let_def)

lemma calculate_pnl_dynamic_hedge:
  assumes "F \<noteq> 0"
  shows "calculate_pnl v s F (map Finite ps) ''dynamic_hedge''
     = Inr (map Finite (map (\<lambda>p. v * min (max (0.5 + 0.5 * (F - p) / F) 0) 1 * F +
                                 v * (1 - min (max (0.5 + 0.5 * (F - p) / F) 0) 1) * p) ps))"
  using assms by (simp add: calculate_pnl_def Let_def map2_map_map)


lemma sum_list_pos:
  fixes xs :: "real list"
  assumes "xs \<noteq> []" "\<forall>x\<in>set xs. 0 < x"
  shows "0 < sum_list xs"
  using assms
proof (induction xs)
  case Nil
  then show ?case by simp
next
  case (Cons x xs)
  show ?case
  proof (cases "xs = []")
    case True
    then show ?thesis using Cons.prems by simp
  next
    case False
    then have "0 < sum_list xs" using Cons by simp
    then show ?thesis using Cons.prems by simp
  qed
qed

lemma np_mean_pos:
  assumes "xs \<noteq> []" "\<forall>x\<in>set xs. 0 < x"
  shows "0 < np_mean xs"
  using sum_list_pos[OF assms] assms(1) by (simp add: np_mean_def)

lemma dynamic_value_pos:
  fixes v F p :: real
  assumes "0 < v" "0 < F" "0 < p"
  shows "0 < v * min (max (0.5 + 0.5 * (F - p) / F) 0) 1 * F +
             v * (1 - min (max (0.5 + 0.5 * (F - p) / F) 0) 1) * p"
proof -
  define r where "r = min (max (0.5 + 0.5 * (F - p) / F) 0) (1::real)"
  have r0: "0 \<le> r" and r1: "r \<le> 1" by (simp_all add: r_def)
  show ?thesis
  proof (cases "r = 0")
    case True
    then show ?thesis using assms unfolding r_def[symmetric] by simp
  next
    case False
    then have "0 < r" using r0 by simp
    then have a: "0 < v * r * F" using assms by simp
    have b: "0 \<le> v * (1 - r) * p" using assms r1 by simp
    show ?thesis using a b unfolding r_def[symmetric] by linarith
  qed
qed

lemma midpoint_between:
  fixes a b :: real
  shows "min a b \<le> (a + b) / 2" "(a + b) / 2 \<le> max a b"
    "a \<noteq> b \<Longrightarrow> min a b < (a + b) / 2" "a \<noteq> b \<Longrightarrow> (a + b) / 2 < max a b"
  by (simp_all add: min_def max_def)

lemma partial_value_midpoint:
  fixes v F p :: real
  shows "v * 0.5 * F + v * (1 - 0.5) * p = (v * p + v * F) / 2"
  by (simp add: algebra_simps)

text \<open>
  C3, as the code has it. For every scenario \<open>i\<close> the \<open>partial_hedge\<close> value is the
  midpoint of the \<open>no_hedge\<close> value \<open>volume * price\<^sub>i\<close> and the \<open>full_hedge\<close> value
  \<open>volume * futures_price\<close>: it lies between them, strictly when the volume is not zero
  and the price differs from the futures price, and it coincides with both when the
  volume is zero or the price equals the futures price.
\<close>

theorem partial_hedge_between:
  "\<exists>nh fh ph.
     calculate_pnl volume spot_price futures_price (map Finite prices) ''no_hedge''
       = Inr (map Finite nh) \<and>
     calculate_pnl volume spot_price futures_price (map Finite prices) ''full_hedge''
       = Inr (map Finite fh) \<and>
     calculate_pnl volume spot_price futures_price (map Finite prices) ''partial_hedge''
       = Inr (map Finite ph) \<and>
     (\<forall>i < length prices.
        nh ! i = volume * prices ! i \<and>
        fh ! i = volume * futures_price \<and>
        ph ! i = (nh ! i + fh ! i) / 2 \<and>
        min (nh ! i) (fh ! i) \<le> ph ! i \<and> ph ! i \<le> max (nh ! i) (fh ! i) \<and>
        (volume \<noteq> 0 \<and> prices ! i \<noteq> futures_price \<longrightarrow>
           min (nh ! i) (fh ! i) < ph ! i \<and> ph ! i < max (nh ! i) (fh ! i)) \<and>
        (volume = 0 \<or> prices ! i = futures_price \<longrightarrow>
           ph ! i = nh ! i \<and> ph ! i = fh ! i))"
proof (intro exI conjI)
  show "calculate_pnl volume spot_price futures_price (map Finite prices) ''no_hedge''
          = Inr (map Finite (map (\<lambda>p. volume * p) prices))"
    by (rule calculate_pnl_no_hedge)
  show "calculate_pnl volume spot_price futures_price (map Finite prices) ''full_hedge''
          = Inr (map Finite (map (\<lambda>p. volume * futures_price) prices))"
    by (rule calculate_pnl_full_hedge)
  show "calculate_pnl volume spot_price futures_price (map Finite prices) ''partial_hedge''
          = Inr (map Finite (map (\<lambda>p. (volume * p + volume * futures_price) / 2) prices))"
    unfolding partial_value_midpoint[symmetric] by (rule calculate_pnl_partial_hedge)
  show "\<forall>i < length prices.
        map (\<lambda>p. volume * p) prices ! i = volume * prices ! i \<and>
        map (\<lambda>p. volume * futures_price) prices ! i = volume * futures_price \<and>
        map (\<lambda>p. (volume * p + volume * futures_price) / 2) prices ! i
          = (map (\<lambda>p. volume * p) prices ! i
              + map (\<lambda>p. volume * futures_price) prices ! i) / 2 \<and>
        min (map (\<lambda>p. volume * p) prices ! i) (map (\<lambda>p. volume * futures_price) prices ! i)
          \<le> map (\<lambda>p. (volume * p + volume * futures_price) / 2) prices ! i \<and>
        map (\<lambda>p. (volume * p + volume * futures_price) / 2) prices ! i
          \<le> max (map (\<lambda>p. volume * p) prices ! i)
                (map (\<lambda>p. volume * futures_price) prices ! i) \<and>
        (volume \<noteq> 0 \<and> prices ! i \<noteq> futures_price \<longrightarrow>
           min (map (\<lambda>p. volume * p) prices ! i)
               (map (\<lambda>p. volume * futures_price) prices ! i)
             < map (\<lambda>p. (volume * p + volume * futures_price) / 2) prices ! i \<and>
           map (\<lambda>p. (volume * p + volume * futures_price) / 2) prices ! i
             < max (map (\<lambda>p. volume * p) prices ! i)
                   (map (\<lambda>p. volume * futures_price) prices ! i)) \<and>
        (volume = 0 \<or> prices ! i = futures_price \<longrightarrow>
           map (\<lambda>p. (volume * p + volume * futures_price) / 2) prices ! i
             = map (\<lambda>p. volume * p) prices ! i \<and>
           map (\<lambda>p. (volume * p + volume * futures_price) / 2) prices ! i
             = map (\<lambda>p. volume * futures_price) prices ! i)"
  proof (intro allI impI)
    fix i
    assume i: "i < length prices"
    have ne: "volume * prices ! i \<noteq> volume * futures_price"
      if "volume \<noteq> 0 \<and> prices ! i \<noteq> futures_price"
      using that by simp
    have eq: "volume * prices ! i = volume * futures_price"
      if "volume = 0 \<or> prices ! i = futures_price"
      using that by auto
    show "map (\<lambda>p. volume * p) prices ! i = volume * prices ! i \<and>
        map (\<lambda>p. volume * futures_price) prices ! i = volume * futures_price \<and>
        map (\<lambda>p. (volume * p + volume * futures_price) / 2) prices ! i
          = (map (\<lambda>p. volume * p) prices ! i
              + map (\<lambda>p. volume * futures_price) prices ! i) / 2 \<and>
        min (map (\<lambda>p. volume * p) prices ! i) (map (\<lambda>p. volume * futures_price) prices ! i)
          \<le> map (\<lambda>p. (volume * p + volume * futures_price) / 2) prices ! i \<and>
        map (\<lambda>p. (volume * p + volume * futures_price) / 2) prices ! i
          \<le> max (map (\<lambda>p. volume * p) prices ! i)
                (map (\<lambda>p. volume * futures_price) prices ! i) \<and>
        (volume \<noteq> 0 \<and> prices ! i \<noteq> futures_price \<longrightarrow>
           min (map (\<lambda>p. volume * p) prices ! i)
               (map (\<lambda>p. volume * futures_price) prices ! i)
             < map (\<lambda>p. (volume * p + volume * futures_price) / 2) prices ! i \<and>
           map (\<lambda>p. (volume * p + volume * futures_price) / 2) prices ! i
             < max (map (\<lambda>p. volume * p) prices ! i)
                   (map (\<lambda>p. volume * futures_price) prices ! i)) \<and>
        (volume = 0 \<or> prices ! i = futures_price \<longrightarrow>
           map (\<lambda>p. (volume * p + volume * futures_price) / 2) prices ! i
             = map (\<lambda>p. volume * p) prices ! i \<and>
           map (\<lambda>p. (volume * p + volume * futures_price) / 2) prices ! i
             = map (\<lambda>p. volume * futures_price) prices ! i)"
      unfolding nth_map[OF i]
      using ne eq midpoint_between[of "volume * prices ! i" "volume * futures_price"]
      by (intro conjI impI) auto
  qed
qed


theorem partial_hedge_between_witness:
  "\<exists>nh fh ph.
     calculate_pnl 10000 4.5 4.5 (map Finite [4, 5]) ''no_hedge'' = Inr (map Finite nh) \<and>
     calculate_pnl 10000 4.5 4.5 (map Finite [4, 5]) ''full_hedge'' = Inr (map Finite fh) \<and>
     calculate_pnl 10000 4.5 4.5 (map Finite [4, 5]) ''partial_hedge'' = Inr (map Finite ph) \<and>
     nh ! 0 = 40000 \<and> fh ! 0 = 45000 \<and> ph ! 0 = 42500 \<and>
     min (nh ! 0) (fh ! 0) < ph ! 0 \<and> ph ! 0 < max (nh ! 0) (fh ! 0)"
proof -
  obtain nh fh ph where
    a: "calculate_pnl 10000 4.5 4.5 (map Finite [4, 5]) ''no_hedge'' = Inr (map Finite nh)" and
    b: "calculate_pnl 10000 4.5 4.5 (map Finite [4, 5]) ''full_hedge'' = Inr (map Finite fh)" and
    c: "calculate_pnl 10000 4.5 4.5 (map Finite [4, 5]) ''partial_hedge'' = Inr (map Finite ph)" and
    d: "\<forall>i < length [4, 5 :: real].
        nh ! i = 10000 * [4, 5] ! i \<and>
        fh ! i = 10000 * 4.5 \<and>
        ph ! i = (nh ! i + fh ! i) / 2 \<and>
        min (nh ! i) (fh ! i) \<le> ph ! i \<and> ph ! i \<le> max (nh ! i) (fh ! i) \<and>
        ((10000 :: real) \<noteq> 0 \<and> [4, 5] ! i \<noteq> (4.5 :: real) \<longrightarrow>
           min (nh ! i) (fh ! i) < ph ! i \<and> ph ! i < max (nh ! i) (fh ! i)) \<and>
        ((10000 :: real) = 0 \<or> [4, 5] ! i = (4.5 :: real) \<longrightarrow>
           ph ! i = nh ! i \<and> ph ! i = fh ! i)"
    using partial_hedge_between [of 10000 "4.5" "4.5" "[4, 5]"] by blast
  have "nh ! 0 = 40000 \<and> fh ! 0 = 45000 \<and> ph ! 0 = 42500 \<and>
     min (nh ! 0) (fh ! 0) < ph ! 0 \<and> ph ! 0 < max (nh ! 0) (fh ! 0)"
    using d[rule_format, of 0] by simp
  then show ?thesis using a b c by blast
qed

text \<open>
  C3 as stated, strictly between for every scenario, fails where the simulated price
  equals the futures price: the three strategies give the same value.
\<close>

theorem partial_hedge_not_strictly_between:
  "calculate_pnl 10000 4.5 4.5 [Finite 4.5] ''no_hedge'' = Inr [Finite 45000] \<and>
   calculate_pnl 10000 4.5 4.5 [Finite 4.5] ''full_hedge'' = Inr [Finite 45000] \<and>
   calculate_pnl 10000 4.5 4.5 [Finite 4.5] ''partial_hedge'' = Inr [Finite 45000] \<and>
   \<not> (min 45000 45000 < (45000 :: real) \<and> (45000 :: real) < max 45000 45000)"
  by (simp add: calculate_pnl_def Let_def)

section \<open>Positive payoffs\<close>

lemma sharpe_expression_nonzero_mean:
  fixes mu sd :: real
  assumes "mu \<noteq> 0" "0 < sd"
  shows "(Finite mu / Finite mu - Finite 0.03) / (Finite sd / Finite mu)
           = Finite ((1 - 0.03) * mu / sd)"
  using assms by simp

lemma positive_vector_metrics:
  assumes ne: "pnl \<noteq> []" and pos: "\<forall>x\<in>set pnl. 0 < x"
  shows "0 < np_mean pnl \<and>
         (\<exists>m. calculate_risk_metrics (map Finite pnl) = Inr m \<and>
            m_mean m = Finite (np_mean pnl) \<and>
            m_mean m / m_mean m = Finite 1 \<and>
            (\<exists>x. m_sharpe_ratio m = Finite x))"
proof -
  have mu: "0 < np_mean pnl" by (rule np_mean_pos[OF ne pos])
  obtain m where m: "calculate_risk_metrics (map Finite pnl) = Inr m"
      "m_mean m = Finite (np_mean pnl)"
      "m_sharpe_ratio m =
         (if np_std pnl > 0
          then (Finite (np_mean pnl) / Finite (np_mean pnl) - Finite 0.03) /
               (Finite (np_std pnl) / Finite (np_mean pnl))
          else Finite 0)"
    using calculate_risk_metrics_finite[OF ne] by blast
  have "\<exists>x. m_sharpe_ratio m = Finite x"
  proof (cases "0 < np_std pnl")
    case True
    then show ?thesis
      using sharpe_expression_nonzero_mean[of "np_mean pnl" "np_std pnl"] mu m(3) by simp
  next
    case False
    then show ?thesis using m(3) by simp
  qed
  then show ?thesis using mu m(1,2) by auto
qed

text \<open>
  C8. With a non-empty vector of positive prices, a positive volume and a positive
  futures price, each of the four strategies returns a vector of positive values. Its
  mean is positive, so \<open>mean / mean\<close> in the Sharpe ratio is \<open>1\<close>, not a division by
  zero, and the Sharpe ratio is a finite number.
\<close>

theorem pnl_positive:
  assumes ne: "prices \<noteq> []" and pos: "\<forall>p\<in>set prices. 0 < p"
    and v: "0 < volume" and f: "0 < futures_price"
    and st: "strategy \<in> {''no_hedge'', ''full_hedge'', ''partial_hedge'', ''dynamic_hedge''}"
  shows "\<exists>pnl. calculate_pnl volume spot_price futures_price (map Finite prices) strategy
                  = Inr (map Finite pnl) \<and>
           length pnl = length prices \<and>
           (\<forall>x\<in>set pnl. 0 < x) \<and>
           0 < np_mean pnl \<and>
           (\<exists>m. calculate_risk_metrics (map Finite pnl) = Inr m \<and>
              m_mean m = Finite (np_mean pnl) \<and>
              m_mean m / m_mean m = Finite 1 \<and>
              (\<exists>x. m_sharpe_ratio m = Finite x))"
proof -
  have main: "\<exists>pnl. r = Inr (map Finite pnl) \<and>
           length pnl = length prices \<and>
           (\<forall>x\<in>set pnl. 0 < x) \<and>
           0 < np_mean pnl \<and>
           (\<exists>m. calculate_risk_metrics (map Finite pnl) = Inr m \<and>
              m_mean m = Finite (np_mean pnl) \<and>
              m_mean m / m_mean m = Finite 1 \<and>
              (\<exists>x. m_sharpe_ratio m = Finite x))"
    if r: "r = Inr (map Finite (map g prices))" and g: "\<And>p. 0 < p \<Longrightarrow> 0 < g p"
    for r and g :: "real \<Rightarrow> real"
  proof -
    have ne': "map g prices \<noteq> []" using ne by simp
    have pos': "\<forall>x\<in>set (map g prices). 0 < x" using pos g by auto
    show ?thesis
      using r positive_vector_metrics[OF ne' pos'] pos' by (intro exI[of _ "map g prices"]) simp
  qed
  consider "strategy = ''no_hedge''" | "strategy = ''full_hedge''"
    | "strategy = ''partial_hedge''" | "strategy = ''dynamic_hedge''"
    using st by auto
  then show ?thesis
  proof cases
    case 1
    show ?thesis unfolding 1
      by (rule main[OF calculate_pnl_no_hedge]) (simp add: v)
  next
    case 2
    show ?thesis unfolding 2
      by (rule main[OF calculate_pnl_full_hedge]) (simp add: v f)
  next
    case 3
    have "0 < volume * 0.5 * futures_price + volume * (1 - 0.5) * p" if "0 < p" for p
      using that v f by (simp add: add_pos_pos)
    then show ?thesis unfolding 3
      by (rule main[OF calculate_pnl_partial_hedge])
  next
    case 4
    have f0: "futures_price \<noteq> 0" using f by simp
    show ?thesis unfolding 4
      by (rule main[OF calculate_pnl_dynamic_hedge[OF f0]]) (rule dynamic_value_pos[OF v f])
  qed
qed

theorem pnl_positive_witness:
  "[4, 10 :: real] \<noteq> [] \<and> (0 :: real) < 10000 \<and> (0 :: real) < 4.5 \<and>
   (\<exists>pnl. calculate_pnl 10000 4.5 4.5 (map Finite [4, 10]) ''dynamic_hedge''
             = Inr (map Finite pnl) \<and>
      length pnl = 2 \<and> 0 < pnl ! 0 \<and> 0 < pnl ! 1 \<and> 0 < np_mean pnl \<and>
      (\<exists>m. calculate_risk_metrics (map Finite pnl) = Inr m \<and>
         m_mean m = Finite (np_mean pnl) \<and>
         m_mean m / m_mean m = Finite 1 \<and>
         (\<exists>x. m_sharpe_ratio m = Finite x)))"
proof -
  obtain pnl where
    a: "calculate_pnl 10000 4.5 4.5 (map Finite [4, 10]) ''dynamic_hedge''
          = Inr (map Finite pnl)" and
    b: "length pnl = length [4, 10 :: real]" and
    c: "\<forall>x\<in>set pnl. 0 < x" and
    d: "0 < np_mean pnl" and
    e: "\<exists>m. calculate_risk_metrics (map Finite pnl) = Inr m \<and>
         m_mean m = Finite (np_mean pnl) \<and>
         m_mean m / m_mean m = Finite 1 \<and>
         (\<exists>x. m_sharpe_ratio m = Finite x)"
    using pnl_positive [of "[4, 10]" 10000 "4.5" "''dynamic_hedge''" "4.5"] by auto
  have "0 < pnl ! 0 \<and> 0 < pnl ! 1" using b c by (simp add: all_set_conv_all_nth)
  then show ?thesis using a b d e by auto
qed

section \<open>Complete runs\<close>

lemma map_const_upt: "map (\<lambda>i. c) [0..<n] = replicate n c"
  by (induction n) (simp_all add: replicate_append_same)

lemma simulate_prices_finite:
  assumes "0 \<le> time_horizon" "0 \<le> n_simulations"
  shows "simulate_prices self spot_price time_horizon n_simulations rng
    = Inr (map Finite (map (\<lambda>i. spot_price * exp (
             (0.02 - 0.5 * (volatility self)\<^sup>2) * (real_of_int time_horizon / 12) +
             volatility self * sqrt (real_of_int time_horizon / 12) * rng i))
           [0..<nat n_simulations]))"
  using assms
  by (simp add: simulate_prices_def standard_normal_def Let_def comp_def)

lemma simulate_prices_finite_ex:
  assumes "0 \<le> time_horizon" "0 \<le> n_simulations"
  shows "\<exists>prices. simulate_prices self spot_price time_horizon n_simulations rng
                     = Inr (map Finite prices) \<and>
           length prices = nat n_simulations \<and>
           (\<forall>p\<in>set prices. \<exists>e. 0 < e \<and> p = spot_price * e)"
proof -
  let ?ps = "map (\<lambda>i. spot_price * exp (
             (0.02 - 0.5 * (volatility self)\<^sup>2) * (real_of_int time_horizon / 12) +
             volatility self * sqrt (real_of_int time_horizon / 12) * rng i))
           [0..<nat n_simulations]"
  have "simulate_prices self spot_price time_horizon n_simulations rng = Inr (map Finite ?ps)"
    by (rule simulate_prices_finite[OF assms])
  moreover have "length ?ps = nat n_simulations" by simp
  moreover have "\<forall>p\<in>set ?ps. \<exists>e. 0 < e \<and> p = spot_price * e"
    by (auto intro: exp_gt_zero)
  ultimately show ?thesis by blast
qed

text \<open>
  With a negative horizon \<open>np.sqrt(dt)\<close> is NaN and so is every price. The P&L vector
  is NaN too, except for \<open>full_hedge\<close>.
\<close>

lemma simulate_prices_negative_horizon:
  assumes "time_horizon < 0" "0 \<le> n_simulations"
  shows "simulate_prices self spot_price time_horizon n_simulations rng
           = Inr (replicate (nat n_simulations) NaN)"
  using assms
  by (simp add: simulate_prices_def standard_normal_def Let_def comp_def map_const_upt
      map_replicate_const)

lemma simulate_prices_Inr:
  assumes "simulate_prices self spot_price time_horizon n_simulations rng = Inr final_prices"
  shows "0 \<le> n_simulations" "length final_prices = nat n_simulations"
  using assms
  by (auto simp: simulate_prices_def standard_normal_def Let_def split: if_splits)

lemma finite_vec_replicate_NaN: "0 < k \<Longrightarrow> finite_vec (replicate k NaN) = None"
  by (cases k) simp_all

lemma finite_vec_replicate_Finite: "finite_vec (replicate k (Finite c)) = Some (replicate k c)"
  by (induction k) simp_all

lemma calculate_pnl_NaN:
  assumes "strategy \<in> {''no_hedge'', ''partial_hedge'', ''dynamic_hedge''}"
  shows "calculate_pnl volume spot_price futures_price (replicate k NaN) strategy
           = Inr (replicate k NaN)"
  using assms by (auto simp: calculate_pnl_def Let_def)

lemma calculate_pnl_length:
  assumes "calculate_pnl volume spot_price futures_price final_prices strategy = Inr pnl"
  shows "length pnl = length final_prices"
  using assms by (auto simp: calculate_pnl_def Let_def split: if_splits)

lemma calculate_pnl_recognised:
  assumes st: "strategy \<in> {''no_hedge'', ''full_hedge'', ''partial_hedge'', ''dynamic_hedge''}"
    and f: "strategy = ''dynamic_hedge'' \<longrightarrow> futures_price \<noteq> 0"
  shows "\<exists>pnl. calculate_pnl volume spot_price futures_price (map Finite prices) strategy
                  = Inr (map Finite pnl) \<and> length pnl = length prices"
proof -
  have wrap: "\<exists>pnl. r = Inr (map Finite pnl) \<and> length pnl = length prices"
    if "r = Inr (map Finite (map g prices))" for r and g :: "real \<Rightarrow> real"
    using that by (intro exI[of _ "map g prices"]) simp
  consider "strategy = ''no_hedge''" | "strategy = ''full_hedge''"
    | "strategy = ''partial_hedge''" | "strategy = ''dynamic_hedge''"
    using st by auto
  then show ?thesis
  proof cases
    case 1
    show ?thesis unfolding 1 by (rule wrap[OF calculate_pnl_no_hedge])
  next
    case 2
    show ?thesis unfolding 2 by (rule wrap[OF calculate_pnl_full_hedge])
  next
    case 3
    show ?thesis unfolding 3 by (rule wrap[OF calculate_pnl_partial_hedge])
  next
    case 4
    then have f0: "futures_price \<noteq> 0" using f by simp
    show ?thesis unfolding 4 by (rule wrap[OF calculate_pnl_dynamic_hedge[OF f0]])
  qed
qed

lemma calculate_risk_metrics_Inr:
  assumes "calculate_risk_metrics pnl = Inr m"
  shows "pnl \<noteq> []" "m_max m = nf_max pnl" "m_min m = nf_min pnl"
    "m_percentile_50 m = nf_percentile pnl 50"
  using assms by (auto simp: calculate_risk_metrics_def Let_def split: if_splits)

lemma np_histogram_Inr:
  assumes "np_histogram v bins = Inr h"
  shows "\<exists>xs. v = map Finite xs \<and> h = histogram_finite xs bins"
  using assms by (auto simp: np_histogram_def finite_vec_Some_iff split: option.splits)

text \<open>
  A run whose price vector and P&L vector are finite, the latter not empty, returns
  a result assembled from the metrics, the two histograms and the scenario scalars.
\<close>

lemma run_simulation_finite:
  assumes spot: "spot = (if spot_price = 0 then current_price self else spot_price)"
    and sp: "simulate_prices self spot time_horizon n_simulations rng = Inr (map Finite prices)"
    and pn: "calculate_pnl volume spot spot (map Finite prices) strategy = Inr (map Finite pnl)"
    and ne: "pnl \<noteq> []"
  shows "\<exists>r m. run_simulation self volume spot_price time_horizon strategy n_simulations rng
                 = Inr r \<and>
           calculate_risk_metrics (map Finite pnl) = Inr m \<and> res_metrics r = m \<and>
           res_spot_price r = spot \<and>
           res_histogram r = \<lparr> h_counts = fst (histogram_finite pnl 50),
                                h_bins = snd (histogram_finite pnl 50) \<rparr> \<and>
           res_price_distribution r = \<lparr> h_counts = fst (histogram_finite prices 50),
                                         h_bins = snd (histogram_finite prices 50) \<rparr> \<and>
           res_sample_scenarios r =
             \<lparr> sc_best_case = nf_max (map Finite pnl), sc_worst_case = nf_min (map Finite pnl),
               sc_median = nf_median (map Finite pnl) \<rparr>"
proof -
  obtain m where m: "calculate_risk_metrics (map Finite pnl) = Inr m"
    using calculate_risk_metrics_finite[OF ne] by blast
  show ?thesis
    unfolding run_simulation_def Let_def spot[symmetric]
    by (simp add: sp pn m np_histogram_def split: prod.splits)
qed

lemma run_simulation_returns:
  assumes n: "0 < n_simulations" and th: "0 \<le> time_horizon"
    and st: "strategy \<in> {''no_hedge'', ''full_hedge'', ''partial_hedge'', ''dynamic_hedge''}"
    and f: "strategy = ''dynamic_hedge'' \<longrightarrow>
              (if spot_price = 0 then current_price self else spot_price) \<noteq> 0"
  shows "\<exists>r. run_simulation self volume spot_price time_horizon strategy n_simulations rng
               = Inr r"
proof -
  define spot where "spot = (if spot_price = 0 then current_price self else spot_price)"
  obtain prices where sp:
      "simulate_prices self spot time_horizon n_simulations rng = Inr (map Finite prices)"
      and len: "length prices = nat n_simulations"
    using simulate_prices_finite_ex[OF th, of n_simulations self spot rng] n by auto
  obtain pnl where pn:
      "calculate_pnl volume spot spot (map Finite prices) strategy = Inr (map Finite pnl)"
      and len': "length pnl = length prices"
    using calculate_pnl_recognised[OF st, of spot volume spot prices] f
    unfolding spot_def by blast
  have ne: "pnl \<noteq> []" using len len' n by auto
  show ?thesis
    using run_simulation_finite[OF spot_def sp pn ne] by blast
qed

text \<open>
  Conversely, a run that returns a result had a positive simulation count and a
  horizon that is not negative, and its price vector and P&L vector were finite: a
  NaN in either makes \<open>np.histogram\<close> raise.
\<close>

lemma run_simulation_Inr:
  assumes run: "run_simulation self volume spot_price time_horizon strategy n_simulations rng
                  = Inr r"
    and spot: "spot = (if spot_price = 0 then current_price self else spot_price)"
  shows "\<exists>prices pnl.
           0 < n_simulations \<and> 0 \<le> time_horizon \<and>
           simulate_prices self spot time_horizon n_simulations rng = Inr (map Finite prices) \<and>
           calculate_pnl volume spot spot (map Finite prices) strategy = Inr (map Finite pnl) \<and>
           length prices = nat n_simulations \<and> length pnl = nat n_simulations \<and>
           calculate_risk_metrics (map Finite pnl) = Inr (res_metrics r) \<and>
           res_histogram r = \<lparr> h_counts = fst (histogram_finite pnl 50),
                                h_bins = snd (histogram_finite pnl 50) \<rparr> \<and>
           res_price_distribution r = \<lparr> h_counts = fst (histogram_finite prices 50),
                                         h_bins = snd (histogram_finite prices 50) \<rparr> \<and>
           res_sample_scenarios r =
             \<lparr> sc_best_case = nf_max (map Finite pnl), sc_worst_case = nf_min (map Finite pnl),
               sc_median = nf_median (map Finite pnl) \<rparr>"
proof -
  obtain fp pv m h ph where
    sp: "simulate_prices self spot time_horizon n_simulations rng = Inr fp" and
    pn: "calculate_pnl volume spot spot fp strategy = Inr pv" and
    m: "calculate_risk_metrics pv = Inr m" and
    hp: "np_histogram pv 50 = Inr h" and
    hq: "np_histogram fp 50 = Inr ph" and
    r: "r = \<lparr> res_strategy = strategy, res_commodity = commodity self,
              res_spot_price = spot, res_volume = volume,
              res_time_horizon = time_horizon, res_n_simulations = n_simulations,
              res_metrics = m,
              res_histogram = \<lparr> h_counts = fst h, h_bins = snd h \<rparr>,
              res_price_distribution = \<lparr> h_counts = fst ph, h_bins = snd ph \<rparr>,
              res_sample_scenarios =
                \<lparr> sc_best_case = nf_max pv, sc_worst_case = nf_min pv,
                  sc_median = nf_median pv \<rparr> \<rparr>"
    using run unfolding run_simulation_def Let_def spot[symmetric]
    by (auto split: sum.splits prod.splits)
  obtain pnl where pv: "pv = map Finite pnl" and h: "h = histogram_finite pnl 50"
    using np_histogram_Inr[OF hp] by blast
  obtain prices where fp: "fp = map Finite prices" and ph: "ph = histogram_finite prices 50"
    using np_histogram_Inr[OF hq] by blast
  have n0: "0 \<le> n_simulations" and lenp: "length prices = nat n_simulations"
    using simulate_prices_Inr[OF sp] by (simp_all add: fp)
  have ne: "pnl \<noteq> []" using calculate_risk_metrics_Inr(1)[OF m] by (simp add: pv)
  have len: "length pnl = nat n_simulations"
    using calculate_pnl_length[OF pn] lenp by (simp add: pv fp)
  have "0 < length pnl" using ne by simp
  then have npos: "0 < n_simulations" unfolding len by simp
  have th: "0 \<le> time_horizon"
  proof (rule ccontr)
    assume "\<not> 0 \<le> time_horizon"
    then have "fp = replicate (nat n_simulations) NaN"
      using simulate_prices_negative_horizon[of time_horizon n_simulations self spot rng] sp n0
      by simp
    then have "finite_vec fp = None"
      using npos by (simp add: finite_vec_replicate_NaN)
    then show False by (simp add: fp)
  qed
  show ?thesis
    using npos th sp pn lenp len m
    by (intro exI[of _ prices] exI[of _ pnl]) (simp add: r pv fp h ph)
qed

section \<open>The Sharpe ratio\<close>

lemma np_std_nonneg: "0 \<le> np_std a"
proof -
  have "0 \<le> np_mean (map (\<lambda>x. \<bar>x - np_mean a\<bar>\<^sup>2) a)"
    by (rule np_mean_nonneg) auto
  then show ?thesis by (simp add: np_std_def)
qed















section \<open>Histogram bins\<close>

lemma length_np_linspace [simp]: "length (np_linspace start stop num) = num"
  by (simp add: np_linspace_def)

lemma np_linspace_nth:
  "k \<le> bins \<Longrightarrow>
   np_linspace lo hi (bins + 1) ! k = lo + real k * ((hi - lo) / real bins)"
  by (simp add: np_linspace_def nth_map_upt del: upt_Suc)

lemma in_bin_linspace:
  assumes "k < bins"
  shows "in_bin (np_linspace lo hi (bins + 1)) k x \<longleftrightarrow>
           lo + real k * ((hi - lo) / real bins) \<le> x \<and>
           (if k + 1 = bins then x \<le> lo + real (k + 1) * ((hi - lo) / real bins)
            else x < lo + real (k + 1) * ((hi - lo) / real bins))"
proof -
  have a: "np_linspace lo hi (bins + 1) ! k = lo + real k * ((hi - lo) / real bins)"
    using assms by (intro np_linspace_nth) simp
  have b: "np_linspace lo hi (bins + 1) ! (k + 1)
             = lo + real (k + 1) * ((hi - lo) / real bins)"
    using assms by (intro np_linspace_nth) simp
  have c: "k + 2 = length (np_linspace lo hi (bins + 1)) \<longleftrightarrow> k + 1 = bins"
    by auto
  show ?thesis unfolding in_bin_def a b c ..
qed

text \<open>
  Every value of the range falls into a bin, and into one bin only: the edges
  increase strictly, and only the last bin is closed on the right.
\<close>

lemma bin_exists:
  assumes lh: "lo < hi" and bp: "0 < bins" and x: "lo \<le> x" "x \<le> hi"
  shows "\<exists>k<bins. in_bin (np_linspace lo hi (bins + 1)) k x"
proof -
  define w where "w = (hi - lo) / real bins"
  have wpos: "0 < w" using lh bp by (simp add: w_def)
  have top: "lo + real bins * w = hi" using bp by (simp add: w_def)
  show ?thesis
  proof (cases "x = hi")
    case True
    have kb: "bins - 1 < bins" using bp by simp
    have last: "bins - 1 + 1 = bins" using bp by simp
    have "real (bins - 1) * w \<le> real bins * w"
      using wpos by (intro mult_right_mono) simp_all
    then have le: "lo + real (bins - 1) * w \<le> x"
      using True top by linarith
    have "in_bin (np_linspace lo hi (bins + 1)) (bins - 1) x"
      unfolding in_bin_linspace[OF kb] w_def[symmetric] last
      using le True top by simp
    then show ?thesis using kb by blast
  next
    case False
    then have xh: "x < hi" using x(2) by simp
    define q where "q = (x - lo) / w"
    define k where "k = nat \<lfloor>q\<rfloor>"
    have q0: "0 \<le> q" using x(1) wpos by (simp add: q_def)
    have "x - lo < real bins * w" using xh top by linarith
    then have qb: "q < real bins" using wpos by (simp add: q_def pos_divide_less_eq)
    have kq: "real k \<le> q" and qk: "q < real k + 1"
      using q0 unfolding k_def by linarith+
    have kb: "k < bins" using kq qb by linarith
    have xq: "x = lo + q * w" using wpos by (simp add: q_def)
    have lower: "lo + real k * w \<le> x"
      unfolding xq using kq wpos by (simp add: mult_right_mono)
    have "q * w < (real k + 1) * w"
      using qk wpos by (simp add: mult_strict_right_mono)
    then have upper: "x < lo + real (k + 1) * w"
      unfolding xq by (simp add: add.commute)
    have "if k + 1 = bins then x \<le> lo + real (k + 1) * w else x < lo + real (k + 1) * w"
    proof (cases "k + 1 = bins")
      case True
      then show ?thesis using less_imp_le[OF upper] by simp
    next
      case False
      then show ?thesis using upper by simp
    qed
    then have "in_bin (np_linspace lo hi (bins + 1)) k x"
      unfolding in_bin_linspace[OF kb] w_def[symmetric]
      using lower by (intro conjI)
    then show ?thesis using kb by blast
  qed
qed

lemma bin_unique_aux:
  assumes lh: "lo < hi" and kj: "k < j" and jb: "j < bins"
    and ik: "in_bin (np_linspace lo hi (bins + 1)) k x"
    and ij: "in_bin (np_linspace lo hi (bins + 1)) j x"
  shows False
proof -
  define w where "w = (hi - lo) / real bins"
  have wpos: "0 < w" using lh jb by (simp add: w_def)
  have kb: "k < bins" and nl: "k + 1 \<noteq> bins" using kj jb by simp_all
  have a: "x < lo + real (k + 1) * w"
    using ik nl unfolding in_bin_linspace[OF kb] w_def[symmetric] by simp
  have b: "lo + real j * w \<le> x"
    using ij unfolding in_bin_linspace[OF jb] w_def[symmetric] by simp
  have "real (k + 1) \<le> real j" using kj by simp
  then have "real (k + 1) * w \<le> real j * w"
    using wpos by (intro mult_right_mono) simp_all
  then show False using a b by linarith
qed

lemma bin_unique:
  assumes "lo < hi" "k < bins" "j < bins"
    and "in_bin (np_linspace lo hi (bins + 1)) k x"
    and "in_bin (np_linspace lo hi (bins + 1)) j x"
  shows "k = j"
  using assms bin_unique_aux[of lo hi k j bins x] bin_unique_aux[of lo hi j k bins x]
  by (metis linorder_neqE_nat)


lemma indicator_sum_one:
  assumes kb: "k < bins" and only: "\<forall>j<bins. P j \<longleftrightarrow> j = k"
  shows "sum_list (map (\<lambda>i. if P i then 1 else 0) [0..<bins]) = (1 :: nat)"
proof -
  have "map (\<lambda>i. if P i then 1 else (0 :: nat)) [0..<bins]
          = map (\<lambda>i. if i = k then 1 else 0) [0..<bins]"
    using only by (intro map_cong) simp_all
  also have "sum_list \<dots> = (\<Sum>i\<in>set [0..<bins]. if i = k then 1 else 0)"
    by (rule interv_sum_list_conv_sum_set_nat)
  also have "\<dots> = 1" using kb by simp
  finally show ?thesis .
qed

lemma bin_counts_sum:
  assumes ex: "\<forall>x\<in>set a. \<exists>k<bins. P k x"
    and un: "\<forall>x\<in>set a. \<forall>k<bins. \<forall>j<bins. P k x \<longrightarrow> P j x \<longrightarrow> k = j"
  shows "sum_list (map (\<lambda>i. length (filter (P i) a)) [0..<bins]) = length a"
  using assms
proof (induction a)
  case Nil
  then show ?case by simp
next
  case (Cons x xs)
  obtain k where k: "k < bins" "P k x" using Cons.prems(1) by auto
  have only: "\<forall>j<bins. P j x \<longleftrightarrow> j = k"
    using k Cons.prems(2) by auto
  have one: "sum_list (map (\<lambda>i. if P i x then 1 else 0) [0..<bins]) = (1 :: nat)"
    by (rule indicator_sum_one[OF k(1) only])
  have rest: "sum_list (map (\<lambda>i. length (filter (P i) xs)) [0..<bins]) = length xs"
    using Cons by simp
  have "map (\<lambda>i. length (filter (P i) (x # xs))) [0..<bins]
          = map (\<lambda>i. (if P i x then 1 else 0) + length (filter (P i) xs)) [0..<bins]"
    by (intro map_cong) simp_all
  then have "sum_list (map (\<lambda>i. length (filter (P i) (x # xs))) [0..<bins])
          = sum_list (map (\<lambda>i. if P i x then 1 else 0) [0..<bins])
            + sum_list (map (\<lambda>i. length (filter (P i) xs)) [0..<bins])"
    by (simp only: sum_list_addf)
  then show ?case using one rest by simp
qed

lemma np_min_le: "x \<in> set a \<Longrightarrow> np_min a \<le> x"
  unfolding np_min_def by (rule Min_le) simp_all

lemma np_max_ge: "x \<in> set a \<Longrightarrow> x \<le> np_max a"
  unfolding np_max_def by (rule Max_ge) simp_all

lemma np_max_in_set: "a \<noteq> [] \<Longrightarrow> np_max a \<in> set a"
  unfolding np_max_def by (rule Max_in) simp_all

lemma np_min_le_max: "a \<noteq> [] \<Longrightarrow> np_min a \<le> np_max a"
  using np_min_le[OF np_max_in_set] .

lemma outer_edges_cases:
  assumes "a \<noteq> []"
  shows "outer_edges a =
           (if np_min a = np_max a then (np_min a - 0.5, np_max a + 0.5)
            else (np_min a, np_max a))"
  using assms by (simp add: outer_edges_def)

lemma outer_edges_cover:
  assumes ne: "a \<noteq> []" and oe: "outer_edges a = (lo, hi)"
  shows "lo < hi" and "\<forall>x\<in>set a. lo \<le> x \<and> x \<le> hi"
proof -
  have le: "np_min a \<le> np_max a" by (rule np_min_le_max[OF ne])
  have bounds: "np_min a \<le> x \<and> x \<le> np_max a" if "x \<in> set a" for x
    using np_min_le[OF that] np_max_ge[OF that] by simp
  show "lo < hi"
    using oe le unfolding outer_edges_cases[OF ne] by (auto split: if_splits)
  show "\<forall>x\<in>set a. lo \<le> x \<and> x \<le> hi"
  proof
    fix x assume "x \<in> set a"
    from bounds[OF this] show "lo \<le> x \<and> x \<le> hi"
      using oe unfolding outer_edges_cases[OF ne] by (auto split: if_splits)
  qed
qed

lemma histogram_counts_sum:
  assumes ne: "a \<noteq> []" and bp: "0 < bins"
  shows "sum_list (fst (histogram_finite a bins)) = length a"
proof -
  obtain lo hi where oe: "outer_edges a = (lo, hi)" by (cases "outer_edges a")
  have lh: "lo < hi" and cover: "\<forall>x\<in>set a. lo \<le> x \<and> x \<le> hi"
    using outer_edges_cover[OF ne oe] by simp_all
  have ex: "\<forall>x\<in>set a. \<exists>k<bins. in_bin (np_linspace lo hi (bins + 1)) k x"
    using cover bin_exists[OF lh bp] by blast
  have un: "\<forall>x\<in>set a. \<forall>k<bins. \<forall>j<bins.
          in_bin (np_linspace lo hi (bins + 1)) k x \<longrightarrow>
          in_bin (np_linspace lo hi (bins + 1)) j x \<longrightarrow> k = j"
    using bin_unique[OF lh] by blast
  show ?thesis
    unfolding histogram_finite_def oe Let_def
    using bin_counts_sum[OF ex un] by simp
qed


lemma histogram_finite_eq:
  assumes "outer_edges a = (lo, hi)"
  shows "histogram_finite a bins =
           (map (\<lambda>i. length (filter (in_bin (np_linspace lo hi (bins + 1)) i) a)) [0..<bins],
            np_linspace lo hi (bins + 1))"
  using assms by (simp add: histogram_finite_def Let_def)

lemma histogram_shape:
  assumes oe: "outer_edges a = (lo, hi)" and bp: "0 < bins"
    and h: "histogram_finite a bins = (hist, bin_edges)"
  shows "length hist = bins" "length bin_edges = bins + 1"
    "bin_edges ! 0 = lo" "bin_edges ! bins = hi"
    "\<forall>k<bins. bin_edges ! (k + 1) - bin_edges ! k = (bin_edges ! bins - bin_edges ! 0) / real bins"
    "\<forall>k<bins. hist ! k = length (filter (in_bin bin_edges k) a)"
proof -
  have hist: "hist = map (\<lambda>i. length (filter (in_bin bin_edges i) a)) [0..<bins]"
    and edges: "bin_edges = np_linspace lo hi (bins + 1)"
    using h unfolding histogram_finite_eq[OF oe] by auto
  show "length hist = bins" by (simp add: hist)
  show "length bin_edges = bins + 1" by (simp add: edges)
  show e0: "bin_edges ! 0 = lo"
    unfolding edges using np_linspace_nth[of 0 bins lo hi] by simp
  show eb: "bin_edges ! bins = hi"
    unfolding edges using np_linspace_nth[of bins bins lo hi] bp by simp
  show "\<forall>k<bins. bin_edges ! (k + 1) - bin_edges ! k
          = (bin_edges ! bins - bin_edges ! 0) / real bins"
  proof (intro allI impI)
    fix k assume k: "k < bins"
    have a: "np_linspace lo hi (bins + 1) ! (k + 1)
               = lo + real (k + 1) * ((hi - lo) / real bins)"
      using k by (intro np_linspace_nth) simp
    have b: "np_linspace lo hi (bins + 1) ! k = lo + real k * ((hi - lo) / real bins)"
      using k by (intro np_linspace_nth) simp
    have "np_linspace lo hi (bins + 1) ! (k + 1) - np_linspace lo hi (bins + 1) ! k
            = (hi - lo) / real bins"
    proof -
      have "lo + real (k + 1) * w - (lo + real k * w) = w" for w :: real
        by (simp add: algebra_simps)
      then show ?thesis unfolding a b .
    qed
    then show "bin_edges ! (k + 1) - bin_edges ! k
          = (bin_edges ! bins - bin_edges ! 0) / real bins"
      unfolding e0 eb unfolding edges .
  qed
  show "\<forall>k<bins. hist ! k = length (filter (in_bin bin_edges k) a)"
    by (simp add: hist)
qed


lemma last_bin_holds_top:
  assumes lh: "lo < hi"
  shows "in_bin (np_linspace lo hi (50 + 1)) 49 hi"
proof -
  have kb: "(49 :: nat) < 50" by simp
  have "lo + real 49 * ((hi - lo) / real 50) \<le> hi"
    using lh by (simp add: field_simps)
  moreover have "hi \<le> lo + real (49 + 1) * ((hi - lo) / real 50)"
    by (simp add: field_simps)
  ultimately show ?thesis
    unfolding in_bin_linspace[OF kb] by simp
qed


text \<open>
  C6, as the code has it. For a non-empty vector the histogram has 50 counts and 51
  edges, consecutive edges are one fiftieth of the range apart, every count is the
  number of values in its bin, and the counts add up to the number of values. When
  the minimum is below the maximum the range is \<open>[min, max]\<close> and the last bin holds
  the maximum. When all values are equal the range is \<open>[min - 0.5, max + 0.5]\<close>. In
  the result of a run both histograms, of the P&L values and of the prices, have 50
  counts and 51 edges, and their counts add up to the number of simulations.
\<close>

theorem histogram_partition:
  assumes ne: "a \<noteq> []"
  shows "(\<exists>hist bin_edges.
     np_histogram (map Finite a) 50 = Inr (hist, bin_edges) \<and>
     length hist = 50 \<and> length bin_edges = 51 \<and>
     (np_min a < np_max a \<longrightarrow>
        bin_edges ! 0 = np_min a \<and> bin_edges ! 50 = np_max a \<and>
        in_bin bin_edges 49 (np_max a)) \<and>
     (np_min a = np_max a \<longrightarrow>
        bin_edges ! 0 = np_min a - 0.5 \<and> bin_edges ! 50 = np_max a + 0.5) \<and>
     (\<forall>k<50. bin_edges ! (k + 1) - bin_edges ! k = (bin_edges ! 50 - bin_edges ! 0) / 50) \<and>
     (\<forall>k<50. hist ! k = length (filter (in_bin bin_edges k) a)) \<and>
     sum_list hist = length a) \<and>
   (run_simulation self volume spot_price time_horizon strategy n_simulations rng = Inr r \<longrightarrow>
      length (h_counts (res_histogram r)) = 50 \<and>
      length (h_bins (res_histogram r)) = 51 \<and>
      sum_list (h_counts (res_histogram r)) = nat n_simulations \<and>
      length (h_counts (res_price_distribution r)) = 50 \<and>
      length (h_bins (res_price_distribution r)) = 51 \<and>
      sum_list (h_counts (res_price_distribution r)) = nat n_simulations)"
proof (intro conjI impI)
  obtain lo hi where oe: "outer_edges a = (lo, hi)" by (cases "outer_edges a")
  obtain hist bin_edges where h: "histogram_finite a 50 = (hist, bin_edges)"
    by (cases "histogram_finite a 50")
  have edges: "bin_edges = np_linspace lo hi (50 + 1)"
    using h unfolding histogram_finite_eq[OF oe] by simp
  have run: "np_histogram (map Finite a) 50 = Inr (hist, bin_edges)"
    by (simp add: np_histogram_def h)
  have shape: "length hist = 50" "length bin_edges = 51"
    "bin_edges ! 0 = lo" "bin_edges ! 50 = hi"
    "\<forall>k<50. bin_edges ! (k + 1) - bin_edges ! k = (bin_edges ! 50 - bin_edges ! 0) / 50"
    "\<forall>k<50. hist ! k = length (filter (in_bin bin_edges k) a)"
    using histogram_shape[OF oe _ h] by simp_all
  have total: "sum_list hist = length a"
    using histogram_counts_sum[OF ne, of 50] h by simp
  have wide: "bin_edges ! 0 = np_min a \<and> bin_edges ! 50 = np_max a \<and>
        in_bin bin_edges 49 (np_max a)" if lt: "np_min a < np_max a"
  proof -
    have "lo = np_min a" "hi = np_max a"
      using oe lt unfolding outer_edges_cases[OF ne] by simp_all
    then show ?thesis
      using shape(3,4) last_bin_holds_top[of lo hi] lt unfolding edges by simp
  qed
  have flat: "bin_edges ! 0 = np_min a - 0.5 \<and> bin_edges ! 50 = np_max a + 0.5"
    if eq: "np_min a = np_max a"
  proof -
    have "lo = np_max a - 0.5" "hi = np_max a + 0.5"
      using oe eq unfolding outer_edges_cases[OF ne] by simp_all
    then show ?thesis
      using shape(3,4) eq by simp
  qed
  show "\<exists>hist bin_edges.
     np_histogram (map Finite a) 50 = Inr (hist, bin_edges) \<and>
     length hist = 50 \<and> length bin_edges = 51 \<and>
     (np_min a < np_max a \<longrightarrow>
        bin_edges ! 0 = np_min a \<and> bin_edges ! 50 = np_max a \<and>
        in_bin bin_edges 49 (np_max a)) \<and>
     (np_min a = np_max a \<longrightarrow>
        bin_edges ! 0 = np_min a - 0.5 \<and> bin_edges ! 50 = np_max a + 0.5) \<and>
     (\<forall>k<50. bin_edges ! (k + 1) - bin_edges ! k = (bin_edges ! 50 - bin_edges ! 0) / 50) \<and>
     (\<forall>k<50. hist ! k = length (filter (in_bin bin_edges k) a)) \<and>
     sum_list hist = length a"
    using run shape(1,2,5,6) total wide flat by blast
next
  assume "run_simulation self volume spot_price time_horizon strategy n_simulations rng = Inr r"
  then obtain prices pnl where n: "0 < n_simulations"
    and lp: "length prices = nat n_simulations" and lq: "length pnl = nat n_simulations"
    and hp: "res_histogram r = \<lparr> h_counts = fst (histogram_finite pnl 50),
                                   h_bins = snd (histogram_finite pnl 50) \<rparr>"
    and hq: "res_price_distribution r = \<lparr> h_counts = fst (histogram_finite prices 50),
                                            h_bins = snd (histogram_finite prices 50) \<rparr>"
    using run_simulation_Inr[OF _ refl] by blast
  have shape: "length (fst (histogram_finite v 50)) = 50 \<and>
               length (snd (histogram_finite v 50)) = 51 \<and>
               sum_list (fst (histogram_finite v 50)) = nat n_simulations"
    if len: "length v = nat n_simulations" for v :: "real list"
  proof -
    have vne: "v \<noteq> []" using len n by auto
    obtain lo hi where oe: "outer_edges v = (lo, hi)" by (cases "outer_edges v")
    obtain hist bin_edges where h: "histogram_finite v 50 = (hist, bin_edges)"
      by (cases "histogram_finite v 50")
    have "length hist = 50" "length bin_edges = 51"
      using histogram_shape(1,2)[OF oe _ h] by simp_all
    moreover have "sum_list hist = length v"
      using histogram_counts_sum[OF vne, of 50] h by simp
    ultimately show ?thesis using h len by simp
  qed
  show "length (h_counts (res_histogram r)) = 50"
    "length (h_bins (res_histogram r)) = 51"
    "sum_list (h_counts (res_histogram r)) = nat n_simulations"
    using shape[OF lq] unfolding hp by simp_all
  show "length (h_counts (res_price_distribution r)) = 50"
    "length (h_bins (res_price_distribution r)) = 51"
    "sum_list (h_counts (res_price_distribution r)) = nat n_simulations"
    using shape[OF lp] unfolding hq by simp_all
qed

theorem histogram_partition_witness:
  "[1, 2, 3 :: real] \<noteq> [] \<and>
   (\<exists>hist bin_edges.
      np_histogram (map Finite [1, 2, 3]) 50 = Inr (hist, bin_edges) \<and>
      length hist = 50 \<and> length bin_edges = 51 \<and>
      bin_edges ! 0 = 1 \<and> bin_edges ! 50 = 3 \<and> in_bin bin_edges 49 3 \<and>
      sum_list hist = 3) \<and>
   (\<exists>r. run_simulation \<lparr> commodity = ''CORN'', current_price = 4.5, volatility = 0.25 \<rparr>
           10000 4.5 6 ''no_hedge'' 3 real = Inr r \<and>
      length (h_counts (res_histogram r)) = 50 \<and>
      length (h_bins (res_histogram r)) = 51 \<and>
      sum_list (h_counts (res_histogram r)) = 3 \<and>
      sum_list (h_counts (res_price_distribution r)) = 3)"
proof -
  let ?corn = "\<lparr> commodity = ''CORN'', current_price = 4.5, volatility = 0.25 \<rparr>"
  have mn: "np_min [1, 2, 3] = 1" by (simp add: np_min_def)
  have mx: "np_max [1, 2, 3] = 3" by (simp add: np_max_def)
  obtain r where r: "run_simulation ?corn 10000 4.5 6 ''no_hedge'' 3 real = Inr r"
    using run_simulation_returns [of 3 6 "''no_hedge''" "4.5" ?corn 10000 real] by auto
  note inst = histogram_partition [of "[1, 2, 3]" ?corn 10000 "4.5" 6 "''no_hedge''" 3 real r]
  have a: "\<exists>hist bin_edges.
      np_histogram (map Finite [1, 2, 3]) 50 = Inr (hist, bin_edges) \<and>
      length hist = 50 \<and> length bin_edges = 51 \<and>
      bin_edges ! 0 = 1 \<and> bin_edges ! 50 = 3 \<and> in_bin bin_edges 49 3 \<and>
      sum_list hist = 3"
    using inst[THEN conjunct1] unfolding mn mx by auto
  have b: "length (h_counts (res_histogram r)) = 50 \<and>
      length (h_bins (res_histogram r)) = 51 \<and>
      sum_list (h_counts (res_histogram r)) = 3 \<and>
      sum_list (h_counts (res_price_distribution r)) = 3"
    using inst[THEN conjunct2] r by simp
  show ?thesis using a b r by blast
qed

lemma np_linspace_nth_num:
  "k < num \<Longrightarrow>
   np_linspace lo hi num ! k = lo + real k * ((hi - lo) / real (num - 1))"
  by (simp add: np_linspace_def nth_map_upt del: upt_Suc)

text \<open>
  C6 as stated fails on a constant vector, such as the P&L of \<open>full_hedge\<close>: the
  edges run from \<open>min - 0.5\<close> to \<open>max + 0.5\<close>, not from the minimum to the maximum,
  and the last bin is empty: the maximum is counted in a bin in the middle.
\<close>

theorem histogram_constant_vector:
  "np_min [45000, 45000] = 45000 \<and> np_max [45000, 45000] = 45000 \<and>
   \<not> isl (np_histogram [Finite 45000, Finite 45000] 50) \<and>
   snd (projr (np_histogram [Finite 45000, Finite 45000] 50)) ! 0 = 44999.5 \<and>
   snd (projr (np_histogram [Finite 45000, Finite 45000] 50)) ! 50 = 45000.5 \<and>
   fst (projr (np_histogram [Finite 45000, Finite 45000] 50)) ! 49 = 0 \<and>
   fst (projr (np_histogram [Finite 45000, Finite 45000] 50)) ! 25 = 2"
proof -
  have oe: "outer_edges [45000, 45000] = (44999.5, 45000.5)"
    by (simp add: outer_edges_def np_min_def np_max_def)
  have run: "np_histogram [Finite 45000, Finite 45000] 50
               = Inr (histogram_finite [45000, 45000] 50)"
    by (simp add: np_histogram_def)
  have k49: "(49 :: nat) < 50" and k25: "(25 :: nat) < 50" by simp_all
  have e0: "np_linspace 44999.5 45000.5 (50 + 1) ! 0 = 44999.5"
    by (simp add: np_linspace_nth_num)
  have e50: "np_linspace 44999.5 45000.5 (50 + 1) ! 50 = 45000.5"
    by (simp add: np_linspace_nth_num)
  have b49: "\<not> in_bin (np_linspace 44999.5 45000.5 (50 + 1)) 49 45000"
    unfolding in_bin_linspace[OF k49] by simp
  have b25: "in_bin (np_linspace 44999.5 45000.5 (50 + 1)) 25 45000"
    unfolding in_bin_linspace[OF k25] by simp
  show ?thesis
    unfolding run histogram_finite_eq[OF oe]
    using e0 e50 b49 b25
    by (simp add: np_min_def np_max_def nth_map_upt del: upt_Suc upt_rec_numeral)
qed

section \<open>Rounding to a double\<close>

text \<open>
  A number \<open>q * 2 powr k\<close> whose factor \<open>q\<close> has an absolute value of at least
  \<open>2 ^ 52\<close> and below \<open>2 ^ 53\<close> is rounded by rounding \<open>q\<close> to an integer, a tie
  going to the even one.
\<close>

lemma fl_scaled:
  assumes lo: "2 ^ 52 \<le> \<bar>q\<bar>" and hi: "\<bar>q\<bar> < 2 ^ 53"
  shows "fl (q * 2 powr of_int k) = of_int (round_even q) * 2 powr of_int k"
proof -
  have q0: "q \<noteq> 0" using lo by auto
  have p: "0 < (2::real) powr of_int k" by simp
  have x0: "q * 2 powr of_int k \<noteq> 0" using q0 p by simp
  have ab: "\<bar>q * 2 powr of_int k\<bar> = \<bar>q\<bar> * 2 powr of_int k"
    by (simp add: abs_mult)
  have "log 2 (\<bar>q\<bar> * 2 powr of_int k) = log 2 \<bar>q\<bar> + of_int k"
    using q0 by (simp add: log_mult)
  moreover have "\<lfloor>log 2 \<bar>q\<bar>\<rfloor> = 52"
  proof -
    have "(2::real) powr of_int 52 \<le> \<bar>q\<bar> \<and> \<bar>q\<bar> < 2 powr of_int (52 + 1)"
      using lo hi by simp
    then show ?thesis
      using floor_log_eq_powr_iff[of "\<bar>q\<bar>" 2 52] q0 by simp
  qed
  ultimately have e: "\<lfloor>log 2 \<bar>q * 2 powr of_int k\<bar>\<rfloor> - 52 = k"
    unfolding ab by simp
  show ?thesis
    unfolding fl_def Let_def e using x0 by simp
qed

lemma fl_eval:
  assumes "x = q * 2 powr of_int k" "2 ^ 52 \<le> \<bar>q\<bar>" "\<bar>q\<bar> < 2 ^ 53" "round_even q = n"
    "y = of_int n * 2 powr of_int k"
  shows "fl x = y"
  unfolding assms(1,5) assms(4)[symmetric] by (rule fl_scaled[OF assms(2,3)])

section \<open>Zero volatility\<close>

lemma simulate_prices_zero_volatility:
  assumes "volatility self = 0" "0 \<le> time_horizon" "0 \<le> n_simulations"
  shows "simulate_prices self spot_price time_horizon n_simulations rng
    = Inr (map Finite (replicate (nat n_simulations)
             (spot_price * exp (0.02 * (real_of_int time_horizon / 12)))))"
  using assms
  by (simp add: simulate_prices_def standard_normal_def Let_def comp_def map_const_upt
      map_replicate_const)

text \<open>
  C7, as the code has it. With a volatility of zero, a positive spot price, horizon
  and simulation count, every generated price is
  \<open>spot_price * exp (0.02 * horizon / 12)\<close> whatever the generator hands out, and
  every entry of the \<open>full_hedge\<close> P&L vector computed from the prices is
  \<open>volume * spot_price\<close>: both vectors are constant.
\<close>

theorem zero_volatility_prices:
  assumes vol: "volatility self = 0" and sp: "0 < spot_price"
    and th: "0 < time_horizon" and n: "0 < n_simulations"
  shows "\<exists>prices.
           simulate_prices self spot_price time_horizon n_simulations rng
             = Inr (map Finite prices) \<and>
           length prices = nat n_simulations \<and>
           (\<forall>p\<in>set prices. p = spot_price * exp (0.02 * (real_of_int time_horizon / 12))) \<and>
           (\<exists>pnl. calculate_pnl volume spot_price spot_price (map Finite prices) ''full_hedge''
                    = Inr (map Finite pnl) \<and>
              length pnl = nat n_simulations \<and>
              (\<forall>x\<in>set pnl. x = volume * spot_price))"
proof -
  let ?c = "spot_price * exp (0.02 * (real_of_int time_horizon / 12))"
  let ?prices = "replicate (nat n_simulations) ?c"
  let ?pnl = "replicate (nat n_simulations) (volume * spot_price)"
  have a: "simulate_prices self spot_price time_horizon n_simulations rng
             = Inr (map Finite ?prices)"
    using vol th n by (intro simulate_prices_zero_volatility) simp_all
  have c: "calculate_pnl volume spot_price spot_price (map Finite ?prices) ''full_hedge''
             = Inr (map Finite ?pnl)"
    unfolding calculate_pnl_full_hedge by (simp add: map_replicate_const)
  have e: "\<exists>pnl. calculate_pnl volume spot_price spot_price (map Finite ?prices) ''full_hedge''
                    = Inr (map Finite pnl) \<and>
              length pnl = nat n_simulations \<and> (\<forall>x\<in>set pnl. x = volume * spot_price)"
    using c by (intro exI[of _ ?pnl]) simp
  have f: "length ?prices = nat n_simulations" by simp
  have g: "\<forall>p\<in>set ?prices. p = ?c" by simp
  show ?thesis
    using a f g e by blast
qed

theorem zero_volatility_prices_witness:
  "volatility \<lparr> commodity = ''CORN'', current_price = 4.5, volatility = 0 \<rparr> = 0 \<and>
   (0 :: real) < 4.5 \<and> (0 :: int) < 6 \<and> (0 :: int) < 3 \<and>
   (\<exists>prices.
      simulate_prices \<lparr> commodity = ''CORN'', current_price = 4.5, volatility = 0 \<rparr>
        4.5 6 3 real = Inr (map Finite prices) \<and>
      length prices = 3 \<and>
      prices ! 0 = 4.5 * exp (0.02 * (6 / 12)) \<and>
      prices ! 2 = 4.5 * exp (0.02 * (6 / 12)) \<and>
      (\<exists>pnl. calculate_pnl 10000 4.5 4.5 (map Finite prices) ''full_hedge''
               = Inr (map Finite pnl) \<and>
         length pnl = 3 \<and> pnl ! 0 = 45000 \<and> pnl ! 2 = 45000))"
proof -
  obtain prices pnl where
    a: "simulate_prices \<lparr> commodity = ''CORN'', current_price = 4.5, volatility = 0 \<rparr>
          4.5 6 3 real = Inr (map Finite prices)" and
    b: "length prices = nat 3" and
    c: "\<forall>p\<in>set prices. p = 4.5 * exp (0.02 * (real_of_int 6 / 12))" and
    d: "calculate_pnl 10000 4.5 4.5 (map Finite prices) ''full_hedge''
               = Inr (map Finite pnl)" and
    e: "length pnl = nat 3" and
    f: "\<forall>x\<in>set pnl. x = 10000 * 4.5"
    using zero_volatility_prices
      [of "\<lparr> commodity = ''CORN'', current_price = 4.5, volatility = 0 \<rparr>" "4.5" 6 3 real 10000]
    by auto
  have p: "prices ! 0 = 4.5 * exp (0.02 * (6 / 12)) \<and> prices ! 2 = 4.5 * exp (0.02 * (6 / 12))"
    using b c by (simp add: all_set_conv_all_nth)
  have q: "pnl ! 0 = 45000 \<and> pnl ! 2 = 45000"
    using e f by (simp add: all_set_conv_all_nth)
  have "\<exists>pnl. calculate_pnl 10000 4.5 4.5 (map Finite prices) ''full_hedge''
               = Inr (map Finite pnl) \<and>
         length pnl = 3 \<and> pnl ! 0 = 45000 \<and> pnl ! 2 = 45000"
    using d e q by (intro exI[of _ pnl]) simp
  then show ?thesis using a b p by auto
qed

text \<open>
  C7 as stated fails in double precision: the standard deviation that \<open>np.std\<close>
  computes for a constant vector need not be zero. With a volatility of zero, a
  volume of \<open>1\<close> and the double nearest to \<open>6542.85\<close> as spot price, the three
  entries of the \<open>full_hedge\<close> P&L vector are that double; their rounded sum divided
  by three is the next double above it, and the standard deviation comes out as
  \<open>2 powr -40\<close>, about \<open>9.09e-13\<close>, not as zero.
\<close>

theorem constant_vector_std_not_zero:
  "(\<exists>prices.
      simulate_prices \<lparr> commodity = ''CORN'', current_price = 4.5, volatility = 0 \<rparr>
        (3596969826897101 / 2 ^ 39) 6 3 real = Inr (map Finite prices) \<and>
      calculate_pnl 1 (3596969826897101 / 2 ^ 39) (3596969826897101 / 2 ^ 39)
        (map Finite prices) ''full_hedge''
        = Inr (map Finite [3596969826897101 / 2 ^ 39, 3596969826897101 / 2 ^ 39,
                           3596969826897101 / 2 ^ 39])) \<and>
   np_mean_fl [3596969826897101 / 2 ^ 39, 3596969826897101 / 2 ^ 39, 3596969826897101 / 2 ^ 39]
     = 7193939653794203 / 2 ^ 40 \<and>
   np_std_fl [3596969826897101 / 2 ^ 39, 3596969826897101 / 2 ^ 39, 3596969826897101 / 2 ^ 39]
     = 1 / 2 ^ 40 \<and>
   np_std_fl [3596969826897101 / 2 ^ 39, 3596969826897101 / 2 ^ 39, 3596969826897101 / 2 ^ 39]
     \<noteq> 0"
proof -
  define x :: real where "x = 3596969826897101 / 2 ^ 39"
  define s2 :: real where "s2 = 3596969826897101 / 2 ^ 38"
  define s3 :: real where "s3 = 5395454740345652 / 2 ^ 38"
  define m :: real where "m = 7193939653794203 / 2 ^ 40"
  define d :: real where "d = - 1 / 2 ^ 40"
  define e :: real where "e = 1 / 2 ^ 80"
  define e2 :: real where "e2 = 1 / 2 ^ 79"
  define e3 :: real where "e3 = 3 / 2 ^ 80"
  define sd :: real where "sd = 1 / 2 ^ 40"
  note defs = x_def s2_def s3_def m_def d_def e_def e2_def e3_def sd_def
  let ?corn0 = "\<lparr> commodity = ''CORN'', current_price = 4.5, volatility = 0 \<rparr>"
  have run: "\<exists>prices.
      simulate_prices ?corn0 x 6 3 real = Inr (map Finite prices) \<and>
      calculate_pnl 1 x x (map Finite prices) ''full_hedge'' = Inr (map Finite [x, x, x])"
  proof -
    have "simulate_prices ?corn0 x 6 3 real
            = Inr (map Finite (replicate (nat 3) (x * exp (0.02 * (real_of_int 6 / 12)))))"
      by (rule simulate_prices_zero_volatility) simp_all
    moreover have "calculate_pnl 1 x x
        (map Finite (replicate (nat 3) (x * exp (0.02 * (real_of_int 6 / 12))))) ''full_hedge''
        = Inr (map Finite [x, x, x])"
      unfolding calculate_pnl_full_hedge by (simp add: numeral_3_eq_3)
    ultimately show ?thesis by blast
  qed
  have f1: "fl x = x"
    by (rule fl_eval[where q = 7193939653794202 and k = "- 40" and n = 7193939653794202])
      (simp_all add: defs round_even_def Let_def powr_minus_divide)
  have f2: "fl (2 * x) = s2"
    by (rule fl_eval[where q = 7193939653794202 and k = "- 39" and n = 7193939653794202])
      (simp_all add: defs round_even_def Let_def powr_minus_divide)
  have f3: "fl (s2 + x) = s3"
    by (rule fl_eval[where q = "10790909480691303 / 2" and k = "- 38" and n = 5395454740345652])
      (simp_all add: defs round_even_def Let_def powr_minus_divide)
  have s: "pairwise_sum_fl [x, x, x] = s3"
    by (subst pairwise_sum_fl.simps) (simp add: f1 f2 f3)
  have f4: "fl (s3 / 3) = m"
    by (rule fl_eval[where q = "21581818961382608 / 3" and k = "- 40" and n = 7193939653794203])
      (simp_all add: defs round_even_def Let_def powr_minus_divide)
  have mean: "np_mean_fl [x, x, x] = m"
    by (simp add: np_mean_fl_def s f4)
  have f5: "fl (x - m) = d"
    by (rule fl_eval[where q = "- (2 ^ 52)" and k = "- 92" and n = "- (2 ^ 52)"])
      (simp_all add: defs round_even_def Let_def powr_minus_divide)
  have f6: "fl (d * d) = e"
    by (rule fl_eval[where q = "2 ^ 52" and k = "- 132" and n = "2 ^ 52"])
      (simp_all add: defs round_even_def Let_def powr_minus_divide)
  have f7: "fl e = e"
    by (rule fl_eval[where q = "2 ^ 52" and k = "- 132" and n = "2 ^ 52"])
      (simp_all add: defs round_even_def Let_def powr_minus_divide)
  have f8: "fl (2 * e) = e2"
    by (rule fl_eval[where q = "2 ^ 52" and k = "- 131" and n = "2 ^ 52"])
      (simp_all add: defs round_even_def Let_def powr_minus_divide)
  have f9: "fl (e2 + e) = e3"
    by (rule fl_eval[where q = "3 * 2 ^ 51" and k = "- 131" and n = "3 * 2 ^ 51"])
      (simp_all add: defs round_even_def Let_def powr_minus_divide)
  have s2: "pairwise_sum_fl [e, e, e] = e3"
    by (subst pairwise_sum_fl.simps) (simp add: f7 f8 f9)
  have f10: "fl (e3 / 3) = e"
  proof -
    have "e3 / 3 = e" by (simp add: defs)
    then show ?thesis using f7 by simp
  qed
  have sq: "sqrt e = sd"
  proof -
    have "sqrt (sd\<^sup>2) = sd" by (simp add: sd_def)
    moreover have "sd\<^sup>2 = e" by (simp add: defs power_divide)
    ultimately show ?thesis by simp
  qed
  have f11: "fl sd = sd"
    by (rule fl_eval[where q = "2 ^ 52" and k = "- 92" and n = "2 ^ 52"])
      (simp_all add: defs round_even_def Let_def powr_minus_divide)
  have std: "np_std_fl [x, x, x] = sd"
    by (simp add: np_std_fl_def Let_def mean f5 f6 s2 f10 sq f11)
  have nz: "np_std_fl [x, x, x] \<noteq> 0"
    unfolding std by (simp add: sd_def)
  show ?thesis
    using run mean std nz unfolding defs by (intro conjI)
qed

section \<open>Scenario scalars\<close>

text \<open>
  C10, as the code has it. In the result of a run the scenario scalars \<open>best_case\<close>
  and \<open>worst_case\<close> are \<open>metrics.max\<close> and \<open>metrics.min\<close>: the same \<open>np.max\<close> and
  \<open>np.min\<close> of the same vector. When the number of simulations is odd, \<open>median\<close> is
  \<open>metrics.percentile_50\<close>: both are the middle entry of the sorted vector.
\<close>

theorem scenarios_duplicate_metrics:
  assumes "run_simulation self volume spot_price time_horizon strategy n_simulations rng = Inr r"
  shows "sc_best_case (res_sample_scenarios r) = m_max (res_metrics r) \<and>
         sc_worst_case (res_sample_scenarios r) = m_min (res_metrics r) \<and>
         (odd n_simulations \<longrightarrow>
            sc_median (res_sample_scenarios r) = m_percentile_50 (res_metrics r))"
proof -
  obtain pnl where n: "0 < n_simulations" and len: "length pnl = nat n_simulations"
    and m: "calculate_risk_metrics (map Finite pnl) = Inr (res_metrics r)"
    and sc: "res_sample_scenarios r =
             \<lparr> sc_best_case = nf_max (map Finite pnl), sc_worst_case = nf_min (map Finite pnl),
               sc_median = nf_median (map Finite pnl) \<rparr>"
    using run_simulation_Inr[OF assms refl] by blast
  have ne: "pnl \<noteq> []" using calculate_risk_metrics_Inr(1)[OF m] by simp
  have med: "sc_median (res_sample_scenarios r) = m_percentile_50 (res_metrics r)"
    if odd: "odd n_simulations"
  proof -
    have "odd (nat n_simulations)" using odd n by (simp add: even_nat_iff)
    then have o: "odd (length pnl)" by (simp add: len)
    have "nf_percentile (map Finite pnl) 50 = Finite (np_percentile pnl 50)"
      using ne by (intro nf_percentile_Finite) simp_all
    then show ?thesis
      unfolding sc calculate_risk_metrics_Inr(4)[OF m]
      by (simp add: nf_median_odd[OF o] np_percentile_50_odd[OF o])
  qed
  show ?thesis
    using med unfolding sc calculate_risk_metrics_Inr(2,3)[OF m] by simp
qed

theorem scenarios_duplicate_metrics_witness:
  "\<exists>r. run_simulation \<lparr> commodity = ''CORN'', current_price = 4.5, volatility = 0.25 \<rparr>
          10000 4.5 6 ''no_hedge'' 3 real = Inr r \<and>
        sc_best_case (res_sample_scenarios r) = m_max (res_metrics r) \<and>
        sc_worst_case (res_sample_scenarios r) = m_min (res_metrics r) \<and>
        sc_median (res_sample_scenarios r) = m_percentile_50 (res_metrics r)"
proof -
  obtain r where r:
    "run_simulation \<lparr> commodity = ''CORN'', current_price = 4.5, volatility = 0.25 \<rparr>
       10000 4.5 6 ''no_hedge'' 3 real = Inr r"
    using run_simulation_returns
      [of 3 6 "''no_hedge''" "4.5"
          "\<lparr> commodity = ''CORN'', current_price = 4.5, volatility = 0.25 \<rparr>" 10000 real]
    by auto
  have "odd (3 :: int)" by simp
  then show ?thesis
    using scenarios_duplicate_metrics [OF r] r by blast
qed

text \<open>
  C10 as stated fails in double precision for an even number of simulations.
  \<open>np.median\<close> takes the mean of the two middle entries, \<open>(a + b) / 2\<close>, and
  \<open>np.percentile\<close> interpolates \<open>b - (b - a) * 0.5\<close>; with every operation rounded the
  two can differ in the last bit. For the P&L vector of \<open>no_hedge\<close> with a volume of
  \<open>1\<close> and the two prices nearest to \<open>10000.1\<close> and \<open>70000.3\<close>, the median is the
  double \<open>40000.200000000004\<close> and the 50th percentile is the double below it.
\<close>

theorem median_differs_from_percentile_50:
  "calculate_pnl 1 4.5 4.5
     [Finite (5497613114461389 / 2 ^ 39), Finite (4810383987363021 / 2 ^ 36)] ''no_hedge''
     = Inr [Finite (5497613114461389 / 2 ^ 39), Finite (4810383987363021 / 2 ^ 36)] \<and>
   np_median_fl [5497613114461389 / 2 ^ 39, 4810383987363021 / 2 ^ 36]
     = 5497585626670695 / 2 ^ 37 \<and>
   np_percentile_fl [5497613114461389 / 2 ^ 39, 4810383987363021 / 2 ^ 36] 50
     = 5497585626670694 / 2 ^ 37 \<and>
   np_median_fl [5497613114461389 / 2 ^ 39, 4810383987363021 / 2 ^ 36]
     \<noteq> np_percentile_fl [5497613114461389 / 2 ^ 39, 4810383987363021 / 2 ^ 36] 50"
proof -
  define a :: real where "a = 5497613114461389 / 2 ^ 39"
  define b :: real where "b = 4810383987363021 / 2 ^ 36"
  define s :: real where "s = 5497585626670695 / 2 ^ 36"
  define md :: real where "md = 5497585626670695 / 2 ^ 37"
  define df :: real where "df = 8246364696110695 / 2 ^ 37"
  define hf :: real where "hf = 8246364696110695 / 2 ^ 38"
  define pc :: real where "pc = 5497585626670694 / 2 ^ 37"
  note defs = a_def b_def s_def md_def df_def hf_def pc_def
  have pn: "calculate_pnl 1 4.5 4.5 [Finite a, Finite b] ''no_hedge'' = Inr [Finite a, Finite b]"
    by (simp add: calculate_pnl_def)
  have ab: "a < b" by (simp add: defs)
  have srt: "sort [a, b] = [a, b]" using ab by simp
  have g1: "fl a = a"
    by (rule fl_eval[where q = 5497613114461389 and k = "- 39" and n = 5497613114461389])
      (simp_all add: defs round_even_def Let_def powr_minus_divide)
  have g2: "fl (a + b) = s"
    by (rule fl_eval[where q = "43980685013365557 / 8" and k = "- 36" and n = 5497585626670695])
      (simp_all add: defs round_even_def Let_def powr_minus_divide)
  have g3: "fl (s / 2) = md"
    by (rule fl_eval[where q = 5497585626670695 and k = "- 37" and n = 5497585626670695])
      (simp_all add: defs round_even_def Let_def powr_minus_divide)
  have sm: "pairwise_sum_fl [a, b] = s"
    by (subst pairwise_sum_fl.simps) (simp add: g1 g2)
  have med: "np_median_fl [a, b] = md"
    unfolding np_median_fl_def Let_def srt by (simp add: np_mean_fl_def sm g3)
  have h0: "fl (1 / 2) = 1 / 2"
    by (rule fl_eval[where q = "2 ^ 52" and k = "- 53" and n = "2 ^ 52"])
      (simp_all add: round_even_def Let_def powr_minus_divide)
  have g4: "fl (b - a) = df"
    by (rule fl_eval[where q = "32985458784442779 / 4" and k = "- 37" and n = 8246364696110695])
      (simp_all add: defs round_even_def Let_def powr_minus_divide)
  have g5: "fl (df * (1 / 2)) = hf"
    by (rule fl_eval[where q = 8246364696110695 and k = "- 38" and n = 8246364696110695])
      (simp_all add: defs round_even_def Let_def powr_minus_divide)
  have g6: "fl (b - hf) = pc"
    by (rule fl_eval[where q = "10995171253341389 / 2" and k = "- 37" and n = 5497585626670694])
      (simp_all add: defs round_even_def Let_def powr_minus_divide)
  have vi: "fl (real (length [a, b] - 1) * fl (50 / 100)) = 1 / 2"
    by (simp add: h0)
  have fl0: "\<lfloor>(1::real) / 2\<rfloor> = 0" by simp
  have gm: "fl (1 / 2 - real (nat 0)) = 1 / 2" by (simp add: h0)
  have om: "fl (1 - 1 / 2) = 1 / 2" by (simp add: h0)
  have "np_percentile_fl [a, b] 50 = lerp_fl a b (1 / 2)"
    unfolding np_percentile_fl_def Let_def srt unfolding vi fl0 gm by simp
  also have "\<dots> = fl (b - fl (fl (b - a) * fl (1 - 1 / 2)))"
    by (simp add: lerp_fl_def)
  also have "\<dots> = pc"
    unfolding om g4 g5 g6 ..
  finally have pct: "np_percentile_fl [a, b] 50 = pc" .
  have ne: "np_median_fl [a, b] \<noteq> np_percentile_fl [a, b] 50"
    unfolding med pct by (simp add: defs)
  show ?thesis
    using pn med pct ne unfolding defs by (intro conjI)
qed

section \<open>Parameters that are not validated\<close>

lemma run_simulation_negative_count:
  assumes "n_simulations < 0"
  shows "run_simulation self volume spot_price time_horizon strategy n_simulations rng
           = Inl NegativeDimensions"
  using assms
  by (simp add: run_simulation_def simulate_prices_def standard_normal_def Let_def)

lemma run_simulation_zero_count:
  "run_simulation self volume spot_price time_horizon strategy 0 rng
     = Inl (if strategy \<in> {''no_hedge'', ''full_hedge'', ''partial_hedge'', ''dynamic_hedge''}
            then EmptyVector else UnknownStrategy strategy)"
  by (simp add: run_simulation_def simulate_prices_def standard_normal_def Let_def
      calculate_pnl_def calculate_risk_metrics_def)

text \<open>
  With a negative horizon and a positive count every price is NaN. The P&L vector is
  NaN too, except for \<open>full_hedge\<close>; the metrics are returned, and the histogram of
  the P&L values or that of the prices raises.
\<close>

lemma run_simulation_negative_horizon:
  assumes th: "time_horizon < 0" and n: "0 < n_simulations"
  shows "run_simulation self volume spot_price time_horizon strategy n_simulations rng
     = Inl (if strategy \<in> {''no_hedge'', ''full_hedge'', ''partial_hedge'', ''dynamic_hedge''}
            then NonFiniteRange else UnknownStrategy strategy)"
proof -
  define spot where "spot = (if spot_price = 0 then current_price self else spot_price)"
  have k: "0 < nat n_simulations" using n by simp
  have sp: "simulate_prices self spot time_horizon n_simulations rng
              = Inr (replicate (nat n_simulations) NaN)"
    using th n by (intro simulate_prices_negative_horizon) simp_all
  consider "strategy \<in> {''no_hedge'', ''partial_hedge'', ''dynamic_hedge''}"
    | "strategy = ''full_hedge''"
    | "strategy \<notin> {''no_hedge'', ''full_hedge'', ''partial_hedge'', ''dynamic_hedge''}"
    by auto
  then show ?thesis
  proof cases
    case 1
    have pn: "calculate_pnl volume spot spot (replicate (nat n_simulations) NaN) strategy
                = Inr (replicate (nat n_simulations) NaN)"
      by (rule calculate_pnl_NaN[OF 1])
    have "NaN \<in> set (replicate (nat n_simulations) NaN)" using k by simp
    then obtain m where m: "calculate_risk_metrics (replicate (nat n_simulations) NaN) = Inr m"
      using calculate_risk_metrics_NaN by blast
    show ?thesis
      unfolding run_simulation_def Let_def spot_def[symmetric]
      using 1 by (auto simp: sp pn m np_histogram_def finite_vec_replicate_NaN[OF k])
  next
    case 2
    have pn: "calculate_pnl volume spot spot (replicate (nat n_simulations) NaN) ''full_hedge''
                = Inr (replicate (nat n_simulations) (Finite (volume * spot)))"
      by (simp add: calculate_pnl_def)
    have ne: "replicate (nat n_simulations) (volume * spot) \<noteq> []" using k by simp
    obtain m where "calculate_risk_metrics
                      (map Finite (replicate (nat n_simulations) (volume * spot))) = Inr m"
      using calculate_risk_metrics_finite[OF ne] by blast
    then have m: "calculate_risk_metrics
                    (replicate (nat n_simulations) (Finite (volume * spot))) = Inr m"
      by simp
    show ?thesis
      unfolding run_simulation_def Let_def spot_def[symmetric] 2
      by (simp add: sp pn m finite_vec_replicate_Finite finite_vec_replicate_NaN[OF k]
          np_histogram_def split: prod.splits)
  next
    case 3
    then have pn: "calculate_pnl volume spot spot (replicate (nat n_simulations) NaN) strategy
                = Inl (UnknownStrategy strategy)"
      by (simp add: calculate_pnl_def)
    show ?thesis
      unfolding run_simulation_def Let_def spot_def[symmetric]
      using 3 by (simp add: sp pn)
  qed
qed

lemma run_simulation_spot_sentinel:
  "run_simulation self volume 0 time_horizon strategy n_simulations rng
     = run_simulation self volume (current_price self) time_horizon strategy n_simulations rng"
  by (simp add: run_simulation_def)

text \<open>
  C1, as the code has it. \<open>run_simulation\<close> has no validation step and no error of
  its own for a parameter. A negative simulation count is refused by the generator.
  A count of zero and, with a positive count, a negative horizon end in the
  unknown-strategy error of \<open>calculate_pnl\<close> when the strategy is not recognised;
  with a recognised strategy the count of zero fails in numpy on the empty vector and
  the negative horizon in \<open>np.histogram\<close> on a range that is not finite. In each case
  the run returns no result. A spot price of \<open>0\<close> stands for the current market
  price.
\<close>

theorem run_simulation_validation:
  "(n_simulations < 0 \<longrightarrow>
      run_simulation self volume spot_price time_horizon strategy n_simulations rng
        = Inl NegativeDimensions) \<and>
   (n_simulations = 0 \<longrightarrow>
      run_simulation self volume spot_price time_horizon strategy n_simulations rng
        = Inl (if strategy \<in> {''no_hedge'', ''full_hedge'', ''partial_hedge'', ''dynamic_hedge''}
               then EmptyVector else UnknownStrategy strategy)) \<and>
   (0 < n_simulations \<and> time_horizon < 0 \<longrightarrow>
      run_simulation self volume spot_price time_horizon strategy n_simulations rng
        = Inl (if strategy \<in> {''no_hedge'', ''full_hedge'', ''partial_hedge'', ''dynamic_hedge''}
               then NonFiniteRange else UnknownStrategy strategy)) \<and>
   run_simulation self volume 0 time_horizon strategy n_simulations rng
     = run_simulation self volume (current_price self) time_horizon strategy n_simulations rng"
proof (intro conjI impI)
  assume "n_simulations < 0"
  then show "run_simulation self volume spot_price time_horizon strategy n_simulations rng
        = Inl NegativeDimensions"
    by (rule run_simulation_negative_count)
next
  assume "n_simulations = 0"
  then show "run_simulation self volume spot_price time_horizon strategy n_simulations rng
        = Inl (if strategy \<in> {''no_hedge'', ''full_hedge'', ''partial_hedge'', ''dynamic_hedge''}
               then EmptyVector else UnknownStrategy strategy)"
    by (simp only: run_simulation_zero_count)
next
  assume "0 < n_simulations \<and> time_horizon < 0"
  then show "run_simulation self volume spot_price time_horizon strategy n_simulations rng
        = Inl (if strategy \<in> {''no_hedge'', ''full_hedge'', ''partial_hedge'', ''dynamic_hedge''}
               then NonFiniteRange else UnknownStrategy strategy)"
    by (intro run_simulation_negative_horizon) simp_all
next
  show "run_simulation self volume 0 time_horizon strategy n_simulations rng
     = run_simulation self volume (current_price self) time_horizon strategy n_simulations rng"
    by (rule run_simulation_spot_sentinel)
qed

theorem run_simulation_validation_witness:
  "run_simulation \<lparr> commodity = ''CORN'', current_price = 4.5, volatility = 0.25 \<rparr>
     10000 4.5 6 ''no_hedge'' (- 1) real = Inl NegativeDimensions \<and>
   run_simulation \<lparr> commodity = ''CORN'', current_price = 4.5, volatility = 0.25 \<rparr>
     10000 4.5 6 ''no_hedge'' 0 real = Inl EmptyVector \<and>
   run_simulation \<lparr> commodity = ''CORN'', current_price = 4.5, volatility = 0.25 \<rparr>
     10000 4.5 (- 6) ''no_hedge'' 3 real = Inl NonFiniteRange \<and>
   run_simulation \<lparr> commodity = ''CORN'', current_price = 4.5, volatility = 0.25 \<rparr>
     10000 4.5 (- 6) ''foo_hedge'' 3 real = Inl (UnknownStrategy ''foo_hedge'') \<and>
   run_simulation \<lparr> commodity = ''CORN'', current_price = 4.5, volatility = 0.25 \<rparr>
     10000 0 6 ''dynamic_hedge'' 3 real
   = run_simulation \<lparr> commodity = ''CORN'', current_price = 4.5, volatility = 0.25 \<rparr>
     10000 4.5 6 ''dynamic_hedge'' 3 real"
proof -
  let ?corn = "\<lparr> commodity = ''CORN'', current_price = 4.5, volatility = 0.25 \<rparr>"
  have a: "run_simulation ?corn 10000 4.5 6 ''no_hedge'' (- 1) real = Inl NegativeDimensions"
    using run_simulation_validation [of "- 1" ?corn 10000 "4.5" 6 "''no_hedge''" real]
    by simp
  have b: "run_simulation ?corn 10000 4.5 6 ''no_hedge'' 0 real = Inl EmptyVector"
    using run_simulation_validation [of 0 ?corn 10000 "4.5" 6 "''no_hedge''" real]
    by simp
  have c: "run_simulation ?corn 10000 4.5 (- 6) ''no_hedge'' 3 real = Inl NonFiniteRange"
    using run_simulation_validation [of 3 ?corn 10000 "4.5" "- 6" "''no_hedge''" real]
    by simp
  have d: "run_simulation ?corn 10000 4.5 (- 6) ''foo_hedge'' 3 real
             = Inl (UnknownStrategy ''foo_hedge'')"
    using run_simulation_validation [of 3 ?corn 10000 "4.5" "- 6" "''foo_hedge''" real]
    by simp
  note inst = run_simulation_validation [of 3 ?corn 10000 0 6 "''dynamic_hedge''" real]
  have e0: "run_simulation ?corn 10000 0 6 ''dynamic_hedge'' 3 real
             = run_simulation ?corn 10000 (current_price ?corn) 6 ''dynamic_hedge'' 3 real"
    by (rule inst[THEN conjunct2, THEN conjunct2, THEN conjunct2])
  have e: "run_simulation ?corn 10000 0 6 ''dynamic_hedge'' 3 real
             = run_simulation ?corn 10000 4.5 6 ''dynamic_hedge'' 3 real"
    using e0 by simp
  show ?thesis by (intro conjI a b c d e)
qed

text \<open>
  C1 as stated fails: runs with a negative volume, with a volume of zero and with a
  horizon of zero return a result instead of an error.
\<close>

theorem run_simulation_accepts_bad_volume_and_horizon:
  "\<not> isl (run_simulation \<lparr> commodity = ''CORN'', current_price = 4.5, volatility = 0.25 \<rparr>
     (- 10000) 4.5 6 ''no_hedge'' 3 real) \<and>
   \<not> isl (run_simulation \<lparr> commodity = ''CORN'', current_price = 4.5, volatility = 0.25 \<rparr>
     0 4.5 6 ''no_hedge'' 3 real) \<and>
   \<not> isl (run_simulation \<lparr> commodity = ''CORN'', current_price = 4.5, volatility = 0.25 \<rparr>
     10000 4.5 0 ''no_hedge'' 3 real)"
proof -
  have ok: "\<not> isl (run_simulation self volume spot_price time_horizon ''no_hedge'' 3 rng)"
    if "0 \<le> time_horizon" for self volume spot_price time_horizon rng
  proof -
    have "\<exists>r. run_simulation self volume spot_price time_horizon ''no_hedge'' 3 rng = Inr r"
      by (rule run_simulation_returns) (use that in simp_all)
    then show ?thesis by auto
  qed
  show ?thesis by (intro conjI ok) simp_all
qed

end
